theory Spec2Isabelle
  imports Main "HOL-Library.Word" "HOL-Library.Sublist"
begin

section \<open>jetson\_clocks: power-state control over kernel control files\<close>

text \<open>
  The repository holds two editions of the single-header library
  \<^verbatim>\<open>jetson_clocks.hpp\<close>:
  \<^item> the exception edition (\<^verbatim>\<open>src/unnamed/part_000\<close>, lines 1-874), whose
    operations throw \<^verbatim>\<open>JetsonClocksException\<close> and which knows the three
    families tegra186, tegra210 and tegra194.  Its functions keep their names here.
  \<^item> the boolean edition (\<^verbatim>\<open>src/jetson_clocks.hpp\<close>), whose operations print a
    message on \<^verbatim>\<open>std::cout\<close> and return \<^verbatim>\<open>false\<close> or an empty value.
    Its functions carry the suffix \<open>_b\<close> here.

  Both editions share the file primitives word for word.  The two early drafts that the
  repository also keeps (\<^verbatim>\<open>src/unnamed/part_000\<close> from line 875 and
  \<^verbatim>\<open>src/unnamed/part_001\<close>: board identification and a first fan setter, the rest
  being empty stubs) are not part of this development.
\<close>

subsection \<open>Errors\<close>

text \<open>
  The exception edition throws one exception class with a message; the boolean edition
  prints the message.  The messages are grouped by what they report:
  \<^item> \<open>PrivilegeDenied\<close>: every message ending in "without root permissions." or
    "without running as root.";
  \<^item> \<open>UnsupportedPlatform\<close>: "SOC family cannot be found.", "machine type cannot be
    found.", "... unsupported SOC family ...", "... SOC family unsupported.",
    "Error: unsupported SOC ...";
  \<^item> \<open>ResourceUnavailable\<close>: "... does not exist.", "... is not writable.",
    "fan speed file not found.", "Can't access Fan!", "... not found.";
  \<^item> \<open>ValueNotAvailable\<close>: "... is not available ...", "emc frequency not in
    acceptable range.", "EMC freq must be in the range ...";
  \<^item> \<open>ParseFailure\<close>: the \<^verbatim>\<open>std::invalid_argument\<close> and
    \<^verbatim>\<open>std::out_of_range\<close> that \<^verbatim>\<open>std::stoi\<close> throws.
\<close>

datatype error =
    PrivilegeDenied
  | UnsupportedPlatform
  | ResourceUnavailable
  | ValueNotAvailable
  | ParseFailure

subsection \<open>Characters, numbers and text\<close>

text \<open>
  A \<^verbatim>\<open>long int\<close> or \<^verbatim>\<open>int\<close> of the source is an \<open>int\<close> here: the library does no
  arithmetic on these values, it compares, sorts and prints them.  Where a value is
  read from text, what does not fit the machine type is the failure the source makes of
  it.  An \<^verbatim>\<open>unsigned char\<close> is an \<open>8 word\<close>.
\<close>

definition isspace :: "char \<Rightarrow> bool" where
  \<comment> \<open>the C locale: space, and the control characters 9 (tab) to 13 (carriage return)\<close>
  "isspace c = (let n = (of_char c :: nat) in n = 32 \<or> (9 \<le> n \<and> n \<le> 13))"

definition isdigit :: "char \<Rightarrow> bool" where
  "isdigit c = (let n = (of_char c :: nat) in 48 \<le> n \<and> n \<le> 57)"

definition digit_val :: "char \<Rightarrow> nat" where
  "digit_val c = of_char c - 48"

definition dec_value :: "string \<Rightarrow> nat" where
  \<comment> \<open>the number a run of decimal digits writes\<close>
  "dec_value ds = foldl (\<lambda>acc c. 10 * acc + digit_val c) 0 ds"

definition digit_char :: "nat \<Rightarrow> char" where
  "digit_char d = ''0123456789'' ! d"

function dec_digits :: "nat \<Rightarrow> string" where
  "dec_digits n = (if n < 10 then [digit_char n]
                   else dec_digits (n div 10) @ [digit_char (n mod 10)])"
  by pat_completeness auto
termination
  by (relation "measure (\<lambda>n. n)") auto

declare dec_digits.simps [simp del]

definition to_string :: "int \<Rightarrow> string" where
  \<comment> \<open>\<^verbatim>\<open>os << value\<close> for an integer: decimal, with a minus sign when negative\<close>
  "to_string v = (if v < 0 then CHR ''-'' # dec_digits (nat (- v)) else dec_digits (nat v))"

definition signed_prefix :: "string \<Rightarrow> bool \<times> string" where
  \<comment> \<open>an optional sign in front of the digits\<close>
  "signed_prefix s =
     (case s of
        [] \<Rightarrow> (False, [])
      | c # r \<Rightarrow> if c = CHR ''-'' then (True, r)
                else if c = CHR ''+'' then (False, r)
                else (False, s))"

definition stoi :: "string \<Rightarrow> error + int" where
  \<comment> \<open>\<^verbatim>\<open>std::stoi\<close>: leading white space, an optional sign, decimal digits; what follows
      the digits is ignored.  No digit: \<^verbatim>\<open>std::invalid_argument\<close>.  A value that does
      not fit a 32-bit \<^verbatim>\<open>int\<close>: \<^verbatim>\<open>std::out_of_range\<close>.\<close>
  "stoi s =
     (let (neg, r) = signed_prefix (dropWhile isspace s);
          ds = takeWhile isdigit r
      in if ds = [] then Inl ParseFailure
         else let v = (if neg then - int (dec_value ds) else int (dec_value ds))
              in if v < - (2 ^ 31) \<or> 2 ^ 31 - 1 < v then Inl ParseFailure else Inr v)"

definition extract_long :: "string \<Rightarrow> (int \<times> string) option" where
  \<comment> \<open>\<^verbatim>\<open>iss >> s\<close> for a \<^verbatim>\<open>long int\<close>: leading white space, an optional sign, decimal
      digits.  The stream fails when there is no digit or when the value does not fit 64
      bits; otherwise the value is returned with the unread rest.\<close>
  "extract_long s =
     (let (neg, r) = signed_prefix (dropWhile isspace s);
          ds = takeWhile isdigit r
      in if ds = [] then None
         else let v = (if neg then - int (dec_value ds) else int (dec_value ds))
              in if v < - (2 ^ 63) \<or> 2 ^ 63 - 1 < v then None
                 else Some (v, dropWhile isdigit r))"

lemma signed_prefix_length: "length (snd (signed_prefix s)) \<le> length s"
  by (simp add: signed_prefix_def split: list.splits)

lemma extract_long_shorter:
  assumes "extract_long s = Some (v, rest)"
  shows "length rest < length s"
proof -
  obtain neg r where sp: "signed_prefix (dropWhile isspace s) = (neg, r)"
    by (cases "signed_prefix (dropWhile isspace s)")
  from assms sp have ne: "takeWhile isdigit r \<noteq> []" and rest: "rest = dropWhile isdigit r"
    by (auto simp: extract_long_def Let_def split: if_splits)
  have "length (takeWhile isdigit r) + length (dropWhile isdigit r) = length r"
    by (metis length_append takeWhile_dropWhile_id)
  with ne have "length (dropWhile isdigit r) < length r"
    by (cases "takeWhile isdigit r") auto
  moreover have "length r \<le> length (dropWhile isspace s)"
    using signed_prefix_length [of "dropWhile isspace s"] sp by simp
  moreover have "length (dropWhile isspace s) \<le> length s"
    by (rule length_dropWhile_le)
  ultimately show ?thesis using rest by simp
qed

function read_longs :: "string \<Rightarrow> int list" where
  \<comment> \<open>\<^verbatim>\<open>while (iss >> s) speeds.push_back(s);\<close>\<close>
  "read_longs s =
     (case extract_long s of
        None \<Rightarrow> []
      | Some (v, rest) \<Rightarrow> v # read_longs rest)"
  by pat_completeness auto
termination
  by (relation "measure length") (auto dest: extract_long_shorter)

declare read_longs.simps [simp del]

definition read_words :: "string \<Rightarrow> string list" where
  \<comment> \<open>\<^verbatim>\<open>std::istream_iterator<std::string>\<close>: the maximal runs of characters that are
      not white space\<close>
  "read_words s =
     (let step = (\<lambda>(done, cur) c.
                    if isspace c then (if cur = [] then (done, []) else (done @ [cur], []))
                    else (done, cur @ [c]));
          (done, cur) = foldl step ([], []) s
      in if cur = [] then done else done @ [cur])"

definition strip_newline :: "string \<Rightarrow> string" where
  \<comment> \<open>\<^verbatim>\<open>output.erase(std::remove(output.begin(), output.end(), '\n'), output.end())\<close>\<close>
  "strip_newline input = filter (\<lambda>c. c \<noteq> CHR 0x0A) input"

fun str_find :: "string \<Rightarrow> string \<Rightarrow> bool" where
  \<comment> \<open>\<^verbatim>\<open>s.find(pat) != std::string::npos\<close>: \<open>pat\<close> occurs in \<open>s\<close> at some position\<close>
  "str_find [] pat = (pat = [])"
| "str_find (c # cs) pat = (prefix pat (c # cs) \<or> str_find cs pat)"

definition regex_match_cpu :: "string \<Rightarrow> bool" where
  \<comment> \<open>\<^verbatim>\<open>std::regex_match(str, std::regex("(.*)cpu[0-9]"))\<close>: the whole name is any
      characters but line terminators, then \<^verbatim>\<open>cpu\<close>, then one digit\<close>
  "regex_match_cpu str =
     (case rev str of
        d # u # p # c # front \<Rightarrow>
          isdigit d \<and> u = CHR ''u'' \<and> p = CHR ''p'' \<and> c = CHR ''c'' \<and>
          (\<forall>x \<in> set front. x \<noteq> CHR 0x0A \<and> x \<noteq> CHR 0x0D)
      | _ \<Rightarrow> False)"

subsection \<open>The machine: effective user, control files, directories\<close>

text \<open>
  The files the library touches are kernel control files (sysfs, debugfs, procfs): a read
  reports the value the kernel holds, and only data written changes it.  Opening such a
  file for writing, as \<^verbatim>\<open>file_writable\<close> does with \<^verbatim>\<open>fopen(name, "w")\<close>, changes
  nothing by itself.  A control file is modelled by the text it reports and by whether
  this process may open it for reading and for writing.
\<close>

record vfile =
  content :: string
  can_read :: bool
  can_write :: bool

datatype node = RegularFile | Directory | SymlinkTo node | DanglingSymlink

datatype st_mode = S_IFREG | S_IFDIR

record world =
  euid :: nat
  files :: "string \<rightharpoonup> vfile"
  dir_entries :: "string \<rightharpoonup> (string \<times> node) list"
  cout :: "error list"

text \<open>
  \<open>dir_entries\<close> gives, for a path that \<^verbatim>\<open>opendir\<close> can open, the entries \<^verbatim>\<open>readdir\<close>
  returns, in its order, each with the kind of file system object the entry is.
  \<open>cout\<close> is what the boolean edition has printed: one entry for each error message.
\<close>

definition open_file :: "string \<Rightarrow> world \<Rightarrow> vfile option" where
  \<comment> \<open>what opening a path finds; the empty path names no file (\<^verbatim>\<open>ENOENT\<close>)\<close>
  "open_file name w = (if name = [] then None else files w name)"

definition running_as_root :: "world \<Rightarrow> bool" where
  "running_as_root w = (euid w = 0)"

definition file_exists :: "string \<Rightarrow> world \<Rightarrow> bool" where
  \<comment> \<open>\<^verbatim>\<open>std::ifstream f(name); return f.good();\<close>\<close>
  "file_exists name w = (case open_file name w of None \<Rightarrow> False | Some f \<Rightarrow> can_read f)"

definition file_writable :: "string \<Rightarrow> world \<Rightarrow> bool" where
  "file_writable name w =
     (if \<not> file_exists name w then False
      else (case open_file name w of None \<Rightarrow> False | Some f \<Rightarrow> can_write f))"

definition read_file :: "string \<Rightarrow> world \<Rightarrow> string" where
  \<comment> \<open>the whole file; the empty string when the file cannot be opened\<close>
  "read_file name w =
     (case open_file name w of
        None \<Rightarrow> []
      | Some f \<Rightarrow> if can_read f then content f else [])"

definition write_file :: "string \<Rightarrow> string \<Rightarrow> world \<Rightarrow> bool \<times> world" where
  "write_file name str w =
     (if \<not> file_writable name w then (False, w)
      else (case open_file name w of
              None \<Rightarrow> (False, w)
            | Some f \<Rightarrow> (True, w\<lparr>files := (files w)(name \<mapsto> f\<lparr>content := str\<rparr>)\<rparr>)))"

fun fstatat :: "node \<Rightarrow> st_mode option" where
  \<comment> \<open>\<^verbatim>\<open>fstatat(dirfd, name, &st, 0)\<close>: with flags 0 a symbolic link is followed;
      \<open>None\<close> is the negative return value\<close>
  "fstatat RegularFile = Some S_IFREG"
| "fstatat Directory = Some S_IFDIR"
| "fstatat (SymlinkTo target) = fstatat target"
| "fstatat DanglingSymlink = None"

fun readdir_loop :: "(string \<times> node) list \<Rightarrow> string list \<Rightarrow> string list" where
  \<comment> \<open>the \<^verbatim>\<open>while ((dent = readdir(srcdir)) != NULL)\<close> loop of \<^verbatim>\<open>list_subdirs\<close>\<close>
  "readdir_loop [] dirs = dirs"
| "readdir_loop ((d_name, n) # rest) dirs =
     (if d_name = ''.'' \<or> d_name = ''..'' then readdir_loop rest dirs
      else (case fstatat n of
              None \<Rightarrow> readdir_loop rest dirs
            | Some st \<Rightarrow> if st = S_IFDIR then readdir_loop rest (dirs @ [d_name])
                        else readdir_loop rest dirs))"

definition list_subdirs :: "string \<Rightarrow> world \<Rightarrow> string list" where
  "list_subdirs path w =
     (case dir_entries w path of
        None \<Rightarrow> []
      | Some entries \<Rightarrow> readdir_loop entries [])"

subsection \<open>The exception edition: board identification\<close>

definition get_soc_family :: "world \<Rightarrow> error + string" where
  "get_soc_family w =
     (if file_exists ''/sys/devices/soc0/family'' w
      then Inr (read_file ''/sys/devices/soc0/family'' w)
      else if file_exists ''/proc/device-tree/compatible'' w
      then (let compat_file = read_file ''/proc/device-tree/compatible'' w
            in if str_find compat_file ''nvidia,tegra210'' then Inr ''tegra210''
               else if str_find compat_file ''nvidia,tegra186'' then Inr ''tegra186''
               else if str_find compat_file ''nvidia,tegra194'' then Inr ''tegra194''
               else Inr [])
      else Inl UnsupportedPlatform)"

definition get_machine :: "world \<Rightarrow> error + string" where
  "get_machine w =
     (if file_exists ''/sys/devices/soc0/family'' w
      then (if file_exists ''/sys/devices/soc0/machine'' w
            then Inr (read_file ''/sys/devices/soc0/machine'' w)
            else Inr [])
      else if file_exists ''/proc/device-tree/model'' w
      then Inr (read_file ''/proc/device-tree/model'' w)
      else Inl UnsupportedPlatform)"

subsection \<open>The exception edition: fan\<close>

definition fan_path :: "world \<Rightarrow> string option" where
  \<comment> \<open>the two locations of the fan file, tried in order (\<^verbatim>\<open>set_fan_speed\<close> and
      \<^verbatim>\<open>get_fan_speed\<close> hold the same chain); \<open>None\<close> is the \<^verbatim>\<open>else\<close> branch\<close>
  "fan_path w =
     (if file_writable ''/sys/kernel/debug/tegra_fan/target_pwm'' w
      then Some ''/sys/kernel/debug/tegra_fan/target_pwm''
      else if file_writable ''/sys/devices/pwm-fan/target_pwm'' w
      then Some ''/sys/devices/pwm-fan/target_pwm''
      else None)"

definition set_fan_speed :: "8 word \<Rightarrow> world \<Rightarrow> (error + unit) \<times> world" where
  "set_fan_speed speed w =
     (if \<not> running_as_root w then (Inl PrivilegeDenied, w)
      else (case get_machine w of
              Inl e \<Rightarrow> (Inl e, w)
            | Inr machine \<Rightarrow>
                if machine = ''jetson-tk1'' then (Inr (), w)
                else (case fan_path w of
                        None \<Rightarrow> (Inl ResourceUnavailable, w)
                      | Some path \<Rightarrow>
                          (Inr (), snd (write_file path (to_string (uint speed)) w)))))"

definition get_fan_speed :: "world \<Rightarrow> error + 8 word" where
  \<comment> \<open>the \<^verbatim>\<open>int\<close> that \<^verbatim>\<open>std::stoi\<close> returns is converted to \<^verbatim>\<open>unsigned char\<close>\<close>
  "get_fan_speed w =
     (if \<not> running_as_root w then Inl PrivilegeDenied
      else (case get_machine w of
              Inl e \<Rightarrow> Inl e
            | Inr machine \<Rightarrow>
                if machine = ''jetson-tk1'' then Inr 255
                else (case fan_path w of
                        None \<Rightarrow> Inl ResourceUnavailable
                      | Some path \<Rightarrow>
                          (case stoi (read_file path w) of
                             Inl e \<Rightarrow> Inl e
                           | Inr v \<Rightarrow> Inr (word_of_int v)))))"

subsection \<open>The exception edition: GPU\<close>

text \<open>
  Each operation selects its files by an \<^verbatim>\<open>if / else if\<close> chain on the family string.
  The chain of each operation is written as a function of its own, \<open>None\<close> being the
  final \<^verbatim>\<open>else\<close> branch that throws; the operation follows.
\<close>

definition gpu_available_freqs_path :: "string \<Rightarrow> string option" where
  "gpu_available_freqs_path soc_family =
     (if soc_family = ''tegra186''
      then Some ''/sys/devices/17000000.gp10b/devfreq/17000000.gp10b/available_frequencies''
      else if soc_family = ''tegra210''
      then Some ''/sys/devices/57000000.gpu/devfreq/57000000.gpu/available_frequencies''
      else if soc_family = ''tegra194''
      then Some ''/sys/devices/17000000.gv11b/devfreq/17000000.gv11b/available_frequencies''
      else None)"

definition get_gpu_available_freqs :: "world \<Rightarrow> error + int list" where
  "get_gpu_available_freqs w =
     (if \<not> running_as_root w then Inl PrivilegeDenied
      else (case get_soc_family w of
              Inl e \<Rightarrow> Inl e
            | Inr soc_family \<Rightarrow>
                (case gpu_available_freqs_path soc_family of
                   None \<Rightarrow> Inl UnsupportedPlatform
                 | Some GPU_AVAILABLE_FREQS \<Rightarrow>
                     Inr (sort (read_longs (read_file GPU_AVAILABLE_FREQS w))))))"

definition gpu_freq_range_paths :: "string \<Rightarrow> (string \<times> string \<times> string) option" where
  \<comment> \<open>\<^verbatim>\<open>GPU_MIN_FREQ\<close>, \<^verbatim>\<open>GPU_MAX_FREQ\<close>, \<^verbatim>\<open>GPU_RAIL_GATE\<close> of \<^verbatim>\<open>set_gpu_freq_range\<close>\<close>
  "gpu_freq_range_paths soc_family =
     (if soc_family = ''tegra186''
      then Some (''/sys/devices/17000000.gp10b/devfreq/17000000.gp10b/min_freq'',
                 ''/sys/devices/17000000.gp10b/devfreq/17000000.gp10b/max_freq'',
                 ''/sys/devices/17000000.gp10b/devfreq/17000000.gp10b/device/railgate_enable'')
      else if soc_family = ''tegra210''
      then Some (''/sys/devices/57000000.gpu/devfreq/57000000.gpu/min_freq'',
                 ''/sys/devices/57000000.gpu/devfreq/57000000.gpu/max_freq'',
                 ''/sys/devices/57000000.gpu/devfreq/57000000.gpu/device/railgate_enable'')
      else if soc_family = ''tegra194''
      then Some (''/sys/devices/17000000.gv11b/devfreq/17000000.gv11b/min_freq'',
                 ''/sys/devices/17000000.gv11b/devfreq/17000000.gv11b/max_freq'',
                 ''/sys/devices/17000000.gv11b/devfreq/17000000.gv11b/device/railgate_enable'')
      else None)"

definition set_gpu_freq_range :: "int \<Rightarrow> int \<Rightarrow> world \<Rightarrow> (error + unit) \<times> world" where
  "set_gpu_freq_range min_freq max_freq w =
     (if \<not> running_as_root w then (Inl PrivilegeDenied, w)
      else (case get_gpu_available_freqs w of
              Inl e \<Rightarrow> (Inl e, w)
            | Inr available_freqs \<Rightarrow>
                if min_freq \<notin> set available_freqs then (Inl ValueNotAvailable, w)
                else if max_freq \<notin> set available_freqs then (Inl ValueNotAvailable, w)
                else (case get_soc_family w of
                        Inl e \<Rightarrow> (Inl e, w)
                      | Inr soc_family \<Rightarrow>
                          (case gpu_freq_range_paths soc_family of
                             None \<Rightarrow> (Inl UnsupportedPlatform, w)
                           | Some (GPU_MIN_FREQ, GPU_MAX_FREQ, GPU_RAIL_GATE) \<Rightarrow>
                               let w1 = snd (write_file GPU_MIN_FREQ (to_string min_freq) w);
                                   w2 = snd (write_file GPU_MAX_FREQ (to_string max_freq) w1);
                                   w3 = snd (write_file GPU_RAIL_GATE ''0'' w2)
                               in (Inr (), w3)))))"

definition gpu_cur_freq_path :: "string \<Rightarrow> string option" where
  \<comment> \<open>the branches of tegra186 and tegra210 are marked \<^verbatim>\<open>// TODO\<close> and set the empty path\<close>
  "gpu_cur_freq_path soc_family =
     (if soc_family = ''tegra186'' then Some []
      else if soc_family = ''tegra210'' then Some []
      else if soc_family = ''tegra194''
      then Some ''/sys/devices/17000000.gv11b/devfreq/17000000.gv11b/cur_freq''
      else None)"

definition get_gpu_cur_freq :: "world \<Rightarrow> error + int" where
  "get_gpu_cur_freq w =
     (if \<not> running_as_root w then Inl PrivilegeDenied
      else (case get_soc_family w of
              Inl e \<Rightarrow> Inl e
            | Inr soc_family \<Rightarrow>
                (case gpu_cur_freq_path soc_family of
                   None \<Rightarrow> Inl UnsupportedPlatform
                 | Some PATH \<Rightarrow>
                     if \<not> file_exists PATH w then Inl ResourceUnavailable
                     else stoi (read_file PATH w))))"

definition gpu_min_freq_path :: "string \<Rightarrow> string option" where
  "gpu_min_freq_path soc_family =
     (if soc_family = ''tegra186'' then Some []
      else if soc_family = ''tegra210'' then Some []
      else if soc_family = ''tegra194''
      then Some ''/sys/devices/17000000.gv11b/devfreq/17000000.gv11b/min_freq''
      else None)"

definition get_gpu_min_freq :: "world \<Rightarrow> error + int" where
  "get_gpu_min_freq w =
     (if \<not> running_as_root w then Inl PrivilegeDenied
      else (case get_soc_family w of
              Inl e \<Rightarrow> Inl e
            | Inr soc_family \<Rightarrow>
                (case gpu_min_freq_path soc_family of
                   None \<Rightarrow> Inl UnsupportedPlatform
                 | Some PATH \<Rightarrow>
                     if \<not> file_exists PATH w then Inl ResourceUnavailable
                     else stoi (read_file PATH w))))"

definition gpu_max_freq_path :: "string \<Rightarrow> string option" where
  "gpu_max_freq_path soc_family =
     (if soc_family = ''tegra186'' then Some []
      else if soc_family = ''tegra210'' then Some []
      else if soc_family = ''tegra194''
      then Some ''/sys/devices/17000000.gv11b/devfreq/17000000.gv11b/max_freq''
      else None)"

definition get_gpu_max_freq :: "world \<Rightarrow> error + int" where
  "get_gpu_max_freq w =
     (if \<not> running_as_root w then Inl PrivilegeDenied
      else (case get_soc_family w of
              Inl e \<Rightarrow> Inl e
            | Inr soc_family \<Rightarrow>
                (case gpu_max_freq_path soc_family of
                   None \<Rightarrow> Inl UnsupportedPlatform
                 | Some PATH \<Rightarrow>
                     if \<not> file_exists PATH w then Inl ResourceUnavailable
                     else stoi (read_file PATH w))))"

definition gpu_usage_path :: "string \<Rightarrow> string option" where
  "gpu_usage_path soc_family =
     (if soc_family = ''tegra210'' then Some ''/sys/devices/gpu.0/load'' else None)"

definition get_gpu_current_usage :: "world \<Rightarrow> error + int" where
  \<comment> \<open>this operation starts with \<^verbatim>\<open>get_soc_family()\<close>: it has no privilege test\<close>
  "get_gpu_current_usage w =
     (case get_soc_family w of
        Inl e \<Rightarrow> Inl e
      | Inr soc_family \<Rightarrow>
          (case gpu_usage_path soc_family of
             None \<Rightarrow> Inl UnsupportedPlatform
           | Some GPU_USAGE \<Rightarrow> stoi (read_file GPU_USAGE w)))"

subsection \<open>The exception edition: EMC\<close>

definition emc_available_freqs_paths :: "string \<Rightarrow> world \<Rightarrow> error + (string \<times> string)" where
  \<comment> \<open>\<^verbatim>\<open>EMC_MIN_FREQ\<close> and \<^verbatim>\<open>EMC_MAX_FREQ\<close> of \<^verbatim>\<open>get_emc_available_freqs\<close>, after the
      iso-cap test of the first branch\<close>
  "emc_available_freqs_paths soc_family w =
     (if soc_family = ''tegra186'' \<or> soc_family = ''tegra194''
      then (case stoi (read_file ''/sys/kernel/nvpmodel_emc_cap/emc_iso_cap'' w) of
              Inl e \<Rightarrow> Inl e
            | Inr emc_cap \<Rightarrow>
                (case stoi (read_file ''/sys/kernel/debug/bpmp/debug/clk/emc/max_rate'' w) of
                   Inl e \<Rightarrow> Inl e
                 | Inr emc_fmax \<Rightarrow>
                     Inr (''/sys/kernel/debug/bpmp/debug/clk/emc/min_rate'',
                          if emc_cap > 0 \<and> emc_cap < emc_fmax
                          then ''/sys/kernel/nvpmodel_emc_cap/emc_iso_cap''
                          else ''/sys/kernel/debug/bpmp/debug/clk/emc/max_rate'')))
      else if soc_family = ''tegra210''
      then Inr (''/sys/kernel/debug/tegra_bwmgr/emc_min_rate'',
                ''/sys/kernel/debug/tegra_bwmgr/emc_max_rate'')
      else Inl UnsupportedPlatform)"

definition get_emc_available_freqs :: "world \<Rightarrow> error + int list" where
  "get_emc_available_freqs w =
     (if \<not> running_as_root w then Inl PrivilegeDenied
      else (case get_soc_family w of
              Inl e \<Rightarrow> Inl e
            | Inr soc_family \<Rightarrow>
                (case emc_available_freqs_paths soc_family w of
                   Inl e \<Rightarrow> Inl e
                 | Inr (EMC_MIN_FREQ, EMC_MAX_FREQ) \<Rightarrow>
                     (case stoi (read_file EMC_MIN_FREQ w) of
                        Inl e \<Rightarrow> Inl e
                      | Inr min_freq \<Rightarrow>
                          (case stoi (read_file EMC_MAX_FREQ w) of
                             Inl e \<Rightarrow> Inl e
                           | Inr max_freq \<Rightarrow> Inr [min_freq, max_freq])))))"

definition get_emc_freq_paths :: "string \<Rightarrow> (string \<times> string) option" where
  \<comment> \<open>\<^verbatim>\<open>EMC_UPDATE_FREQ\<close> and \<^verbatim>\<open>EMC_FREQ_OVERRIDE\<close> of \<^verbatim>\<open>get_emc_freq\<close>; its first test
      reads \<^verbatim>\<open>soc_family == "tegra186" | soc_family == "tagra194"\<close>\<close>
  "get_emc_freq_paths soc_family =
     (if soc_family = ''tegra186'' \<or> soc_family = ''tagra194''
      then Some (''/sys/kernel/debug/bpmp/debug/clk/emc/rate'',
                 ''/sys/kernel/debug/bpmp/debug/clk/emc/mrq_rate_locked'')
      else if soc_family = ''tegra210''
      then Some (''/sys/kernel/debug/clk/override.emc/clk_update_rate'',
                 ''/sys/kernel/debug/clk/override.emc/clk_state'')
      else None)"

definition get_emc_freq :: "world \<Rightarrow> error + int" where
  "get_emc_freq w =
     (if \<not> running_as_root w then Inl PrivilegeDenied
      else (case get_soc_family w of
              Inl e \<Rightarrow> Inl e
            | Inr soc_family \<Rightarrow>
                (case get_emc_freq_paths soc_family of
                   None \<Rightarrow> Inl UnsupportedPlatform
                 | Some (EMC_UPDATE_FREQ, EMC_FREQ_OVERRIDE) \<Rightarrow>
                     stoi (read_file EMC_UPDATE_FREQ w))))"

definition set_emc_freq_paths :: "string \<Rightarrow> (string \<times> string) option" where
  \<comment> \<open>\<^verbatim>\<open>EMC_UPDATE_FREQ\<close> and \<^verbatim>\<open>EMC_FREQ_OVERRIDE\<close> of \<^verbatim>\<open>set_emc_freq\<close>\<close>
  "set_emc_freq_paths soc_family =
     (if soc_family = ''tegra186'' \<or> soc_family = ''tegra194''
      then Some (''/sys/kernel/debug/bpmp/debug/clk/emc/rate'',
                 ''/sys/kernel/debug/bpmp/debug/clk/emc/mrq_rate_locked'')
      else if soc_family = ''tegra210''
      then Some (''/sys/kernel/debug/clk/override.emc/clk_update_rate'',
                 ''/sys/kernel/debug/clk/override.emc/clk_state'')
      else None)"

definition set_emc_freq :: "int \<Rightarrow> world \<Rightarrow> (error + unit) \<times> world" where
  \<comment> \<open>\<^verbatim>\<open>emc_freqs\<close> always holds two values, so both index reads are in range\<close>
  "set_emc_freq freq w =
     (if \<not> running_as_root w then (Inl PrivilegeDenied, w)
      else (case get_emc_available_freqs w of
              Inl e \<Rightarrow> (Inl e, w)
            | Inr emc_freqs \<Rightarrow>
                let min_freq = emc_freqs ! 0;
                    max_freq = emc_freqs ! (length emc_freqs - 1)
                in if freq < min_freq \<or> freq > max_freq then (Inl ValueNotAvailable, w)
                   else (case get_soc_family w of
                           Inl e \<Rightarrow> (Inl e, w)
                         | Inr soc_family \<Rightarrow>
                             (case set_emc_freq_paths soc_family of
                                None \<Rightarrow> (Inl UnsupportedPlatform, w)
                              | Some (EMC_UPDATE_FREQ, EMC_FREQ_OVERRIDE) \<Rightarrow>
                                  let w1 = snd (write_file EMC_UPDATE_FREQ (to_string freq) w);
                                      w2 = snd (write_file EMC_FREQ_OVERRIDE ''1'' w1)
                                  in (Inr (), w2)))))"

subsection \<open>The exception edition: CPUs\<close>

definition get_cpu_ids :: "world \<Rightarrow> error + int list" where
  \<comment> \<open>\<^verbatim>\<open>dir[dir.size() - 1] - '0'\<close> is the last character of the name less the
      character code of \<^verbatim>\<open>'0'\<close>\<close>
  "get_cpu_ids w =
     (if \<not> running_as_root w then Inl PrivilegeDenied
      else let all_subdirs = list_subdirs ''/sys/devices/system/cpu/'' w;
               cpu_subdirs = filter regex_match_cpu all_subdirs;
               ids = map (\<lambda>dir. int (of_char (last dir)) - 48) cpu_subdirs
           in Inr (sort ids))"

definition get_cpu_available_freqs :: "int \<Rightarrow> world \<Rightarrow> error + int list" where
  "get_cpu_available_freqs cpu_id w =
     (if \<not> running_as_root w then Inl PrivilegeDenied
      else let path = ''/sys/devices/system/cpu/cpu'' @ to_string cpu_id @
                      ''/cpufreq/scaling_available_frequencies''
           in if \<not> file_exists path w then Inl ResourceUnavailable
              else Inr (sort (read_longs (read_file path w))))"

definition get_cpu_available_governors :: "int \<Rightarrow> world \<Rightarrow> error + string list" where
  "get_cpu_available_governors cpu_id w =
     (if \<not> running_as_root w then Inl PrivilegeDenied
      else let path = ''/sys/devices/system/cpu/cpu'' @ to_string cpu_id @
                      ''/cpufreq/scaling_available_governors''
           in if \<not> file_exists path w then Inl ResourceUnavailable
              else Inr (read_words (strip_newline (read_file path w))))"

definition get_cpu_governor :: "int \<Rightarrow> world \<Rightarrow> error + string" where
  "get_cpu_governor cpu_id w =
     (if \<not> running_as_root w then Inl PrivilegeDenied
      else let path = ''/sys/devices/system/cpu/cpu'' @ to_string cpu_id @
                      ''/cpufreq/scaling_governor''
           in if \<not> file_exists path w then Inl ResourceUnavailable
              else Inr (strip_newline (read_file path w)))"

definition get_cpu_min_freq :: "int \<Rightarrow> world \<Rightarrow> error + int" where
  "get_cpu_min_freq cpu_id w =
     (if \<not> running_as_root w then Inl PrivilegeDenied
      else let path = ''/sys/devices/system/cpu/cpu'' @ to_string cpu_id @
                      ''/cpufreq/scaling_min_freq''
           in if \<not> file_exists path w then Inl ResourceUnavailable
              else stoi (read_file path w))"

definition get_cpu_max_freq :: "int \<Rightarrow> world \<Rightarrow> error + int" where
  "get_cpu_max_freq cpu_id w =
     (if \<not> running_as_root w then Inl PrivilegeDenied
      else let path = ''/sys/devices/system/cpu/cpu'' @ to_string cpu_id @
                      ''/cpufreq/scaling_max_freq''
           in if \<not> file_exists path w then Inl ResourceUnavailable
              else stoi (read_file path w))"

definition get_cpu_cur_freq :: "int \<Rightarrow> world \<Rightarrow> error + int" where
  "get_cpu_cur_freq cpu_id w =
     (if \<not> running_as_root w then Inl PrivilegeDenied
      else let path = ''/sys/devices/system/cpu/cpu'' @ to_string cpu_id @
                      ''/cpufreq/scaling_cur_freq''
           in if \<not> file_exists path w then Inl ResourceUnavailable
              else stoi (read_file path w))"

text \<open>
  The three setters write the QoS file first, then ask for the family (which throws when
  no identification file exists), then write the two cluster files on tegra186, then the
  target file.  The results of \<^verbatim>\<open>write_file\<close> are dropped.
\<close>

definition set_cpu_min_freq :: "int \<Rightarrow> int \<Rightarrow> world \<Rightarrow> (error + unit) \<times> world" where
  "set_cpu_min_freq cpu_id min_freq w =
     (if \<not> running_as_root w then (Inl PrivilegeDenied, w)
      else let path = ''/sys/devices/system/cpu/cpu'' @ to_string cpu_id @
                      ''/cpufreq/scaling_min_freq''
           in if \<not> file_writable path w then (Inl ResourceUnavailable, w)
              else (case get_cpu_available_freqs cpu_id w of
                      Inl e \<Rightarrow> (Inl e, w)
                    | Inr available \<Rightarrow>
                        if min_freq \<notin> set available then (Inl ValueNotAvailable, w)
                        else let w1 = snd (write_file ''/sys/module/qos/parameters/enable'' ''0'' w)
                             in (case get_soc_family w1 of
                                   Inl e \<Rightarrow> (Inl e, w1)
                                 | Inr soc_family \<Rightarrow>
                                     let w3 = (if soc_family = ''tegra186''
                                               then let w2 = snd (write_file
                                                      ''/sys/kernel/debug/tegra_cpufreq/M_CLUSTER/cc3/enable''
                                                      ''0'' w1)
                                                    in snd (write_file
                                                      ''/sys/kernel/debug/tegra_cpufreq/B_CLUSTER/cc3/enable''
                                                      ''0'' w2)
                                               else w1)
                                     in (Inr (), snd (write_file path (to_string min_freq) w3)))))"

definition set_cpu_max_freq :: "int \<Rightarrow> int \<Rightarrow> world \<Rightarrow> (error + unit) \<times> world" where
  "set_cpu_max_freq cpu_id max_freq w =
     (if \<not> running_as_root w then (Inl PrivilegeDenied, w)
      else let path = ''/sys/devices/system/cpu/cpu'' @ to_string cpu_id @
                      ''/cpufreq/scaling_max_freq''
           in if \<not> file_writable path w then (Inl ResourceUnavailable, w)
              else (case get_cpu_available_freqs cpu_id w of
                      Inl e \<Rightarrow> (Inl e, w)
                    | Inr available \<Rightarrow>
                        if max_freq \<notin> set available then (Inl ValueNotAvailable, w)
                        else let w1 = snd (write_file ''/sys/module/qos/parameters/enable'' ''0'' w)
                             in (case get_soc_family w1 of
                                   Inl e \<Rightarrow> (Inl e, w1)
                                 | Inr soc_family \<Rightarrow>
                                     let w3 = (if soc_family = ''tegra186''
                                               then let w2 = snd (write_file
                                                      ''/sys/kernel/debug/tegra_cpufreq/M_CLUSTER/cc3/enable''
                                                      ''0'' w1)
                                                    in snd (write_file
                                                      ''/sys/kernel/debug/tegra_cpufreq/B_CLUSTER/cc3/enable''
                                                      ''0'' w2)
                                               else w1)
                                     in (Inr (), snd (write_file path (to_string max_freq) w3)))))"

definition set_cpu_governor :: "int \<Rightarrow> string \<Rightarrow> world \<Rightarrow> (error + unit) \<times> world" where
  "set_cpu_governor cpu_id governor w =
     (if \<not> running_as_root w then (Inl PrivilegeDenied, w)
      else let path = ''/sys/devices/system/cpu/cpu'' @ to_string cpu_id @
                      ''/cpufreq/scaling_governor''
           in if \<not> file_exists path w then (Inl ResourceUnavailable, w)
              else (case get_cpu_available_governors cpu_id w of
                      Inl e \<Rightarrow> (Inl e, w)
                    | Inr available \<Rightarrow>
                        if governor \<notin> set available then (Inl ValueNotAvailable, w)
                        else let w1 = snd (write_file ''/sys/module/qos/parameters/enable'' ''0'' w)
                             in (case get_soc_family w1 of
                                   Inl e \<Rightarrow> (Inl e, w1)
                                 | Inr soc_family \<Rightarrow>
                                     let w3 = (if soc_family = ''tegra186''
                                               then let w2 = snd (write_file
                                                      ''/sys/kernel/debug/tegra_cpufreq/M_CLUSTER/cc3/enable''
                                                      ''0'' w1)
                                                    in snd (write_file
                                                      ''/sys/kernel/debug/tegra_cpufreq/B_CLUSTER/cc3/enable''
                                                      ''0'' w2)
                                               else w1)
                                     in (Inr (), snd (write_file path governor w3)))))"

subsection \<open>The boolean edition\<close>

text \<open>
  The operations of \<^verbatim>\<open>src/jetson_clocks.hpp\<close> print their error on \<^verbatim>\<open>std::cout\<close> and
  return \<^verbatim>\<open>false\<close>, zero or an empty container.  They return the machine they leave,
  whose \<open>cout\<close> holds the messages printed.  The operations that call \<^verbatim>\<open>std::stoi\<close>
  can still end by its exception, which is the \<open>Inl\<close> of their result.
\<close>

definition print_error :: "error \<Rightarrow> world \<Rightarrow> world" where
  "print_error e w = w\<lparr>cout := cout w @ [e]\<rparr>"

definition get_soc_family_b :: "world \<Rightarrow> string" where
  "get_soc_family_b w =
     (if file_exists ''/sys/devices/soc0/family'' w
      then read_file ''/sys/devices/soc0/family'' w
      else if file_exists ''/proc/device-tree/compatible'' w
      then (let compat_file = read_file ''/proc/device-tree/compatible'' w
            in if str_find compat_file ''nvidia,tegra210'' then ''tegra210''
               else if str_find compat_file ''nvidia,tegra186'' then ''tegra186''
               else [])
      else [])"

definition get_machine_b :: "world \<Rightarrow> string" where
  "get_machine_b w =
     (if file_exists ''/sys/devices/soc0/family'' w
      then (if file_exists ''/sys/devices/soc0/machine'' w
            then read_file ''/sys/devices/soc0/machine'' w
            else [])
      else if file_exists ''/proc/device-tree/model'' w
      then read_file ''/proc/device-tree/model'' w
      else [])"

definition set_fan_speed_b :: "8 word \<Rightarrow> world \<Rightarrow> bool \<times> world" where
  "set_fan_speed_b speed w =
     (if \<not> running_as_root w then (False, print_error PrivilegeDenied w)
      else if get_machine_b w = ''jetson-tk1'' then (True, w)
      else if \<not> file_writable ''/sys/kernel/debug/tegra_fan/target_pwm'' w
      then (False, print_error ResourceUnavailable w)
      else write_file ''/sys/kernel/debug/tegra_fan/target_pwm'' (to_string (uint speed)) w)"

definition get_fan_speed_b :: "world \<Rightarrow> (error + 8 word) \<times> world" where
  "get_fan_speed_b w =
     (if \<not> running_as_root w then (Inr 0, print_error PrivilegeDenied w)
      else if get_machine_b w = ''jetson-tk1'' then (Inr 255, w)
      else if \<not> file_exists ''/sys/kernel/debug/tegra_fan/target_pwm'' w
      then (Inr 0, print_error ResourceUnavailable w)
      else (case stoi (read_file ''/sys/kernel/debug/tegra_fan/target_pwm'' w) of
              Inl e \<Rightarrow> (Inl e, w)
            | Inr v \<Rightarrow> (Inr (word_of_int v), w)))"

definition gpu_available_freqs_path_b :: "string \<Rightarrow> string option" where
  "gpu_available_freqs_path_b soc_family =
     (if soc_family = ''tegra186''
      then Some ''/sys/devices/17000000.gp10b/devfreq/17000000.gp10b/available_frequencies''
      else if soc_family = ''tegra210''
      then Some ''/sys/devices/57000000.gpu/devfreq/57000000.gpu/available_frequencies''
      else None)"

definition get_gpu_available_freqs_b :: "world \<Rightarrow> int list \<times> world" where
  "get_gpu_available_freqs_b w =
     (if \<not> running_as_root w then ([], print_error PrivilegeDenied w)
      else (case gpu_available_freqs_path_b (get_soc_family_b w) of
              None \<Rightarrow> ([], print_error UnsupportedPlatform w)
            | Some GPU_AVAILABLE_FREQS \<Rightarrow>
                (sort (read_longs (read_file GPU_AVAILABLE_FREQS w)), w)))"

definition gpu_freq_range_paths_b :: "string \<Rightarrow> (string \<times> string \<times> string) option" where
  "gpu_freq_range_paths_b soc_family =
     (if soc_family = ''tegra186''
      then Some (''/sys/devices/17000000.gp10b/devfreq/17000000.gp10b/min_freq'',
                 ''/sys/devices/17000000.gp10b/devfreq/17000000.gp10b/max_freq'',
                 ''/sys/devices/17000000.gp10b/devfreq/17000000.gp10b/device/railgate_enable'')
      else if soc_family = ''tegra210''
      then Some (''/sys/devices/57000000.gpu/devfreq/57000000.gpu/min_freq'',
                 ''/sys/devices/57000000.gpu/devfreq/57000000.gpu/max_freq'',
                 ''/sys/devices/57000000.gpu/devfreq/57000000.gpu/device/railgate_enable'')
      else None)"

definition set_gpu_freq_range_b :: "int \<Rightarrow> int \<Rightarrow> world \<Rightarrow> bool \<times> world" where
  \<comment> \<open>\<^verbatim>\<open>success &= write_file(...)\<close> runs every write, whatever the earlier ones returned\<close>
  "set_gpu_freq_range_b min_freq max_freq w =
     (if \<not> running_as_root w then (False, print_error PrivilegeDenied w)
      else let (available_freqs, w0) = get_gpu_available_freqs_b w
           in if min_freq \<notin> set available_freqs then (False, print_error ValueNotAvailable w0)
              else if max_freq \<notin> set available_freqs
              then (False, print_error ValueNotAvailable w0)
              else (case gpu_freq_range_paths_b (get_soc_family_b w0) of
                      None \<Rightarrow> (False, print_error UnsupportedPlatform w0)
                    | Some (GPU_MIN_FREQ, GPU_MAX_FREQ, GPU_RAIL_GATE) \<Rightarrow>
                        let (s1, w1) = write_file GPU_MIN_FREQ (to_string min_freq) w0;
                            (s2, w2) = write_file GPU_MAX_FREQ (to_string max_freq) w1;
                            (s3, w3) = write_file GPU_RAIL_GATE ''0'' w2
                        in (s1 \<and> s2 \<and> s3, w3)))"

definition emc_available_freq_range_paths_b ::
  "string \<Rightarrow> world \<Rightarrow> error + (string \<times> string) option" where
  \<comment> \<open>\<^verbatim>\<open>EMC_MIN_FREQ\<close> and \<^verbatim>\<open>EMC_MAX_FREQ\<close> of \<^verbatim>\<open>get_emc_available_freq_range\<close>;
      \<open>Inr None\<close> is the branch of an unsupported family\<close>
  "emc_available_freq_range_paths_b soc_family w =
     (if soc_family = ''tegra186''
      then (case stoi (read_file ''/sys/kernel/nvpmodel_emc_cap/emc_iso_cap'' w) of
              Inl e \<Rightarrow> Inl e
            | Inr emc_cap \<Rightarrow>
                (case stoi (read_file ''/sys/kernel/debug/bpmp/debug/clk/emc/max_rate'' w) of
                   Inl e \<Rightarrow> Inl e
                 | Inr emc_fmax \<Rightarrow>
                     Inr (Some (''/sys/kernel/debug/bpmp/debug/clk/emc/min_rate'',
                                if emc_cap > 0 \<and> emc_cap < emc_fmax
                                then ''/sys/kernel/nvpmodel_emc_cap/emc_iso_cap''
                                else ''/sys/kernel/debug/bpmp/debug/clk/emc/max_rate''))))
      else if soc_family = ''tegra210''
      then Inr (Some (''/sys/kernel/debug/tegra_bwmgr/min_rate'',
                      ''/sys/kernel/debug/tegra_bwmgr/max_rate''))
      else Inr None)"

definition get_emc_available_freq_range_b :: "world \<Rightarrow> (error + int \<times> int) \<times> world" where
  "get_emc_available_freq_range_b w =
     (if \<not> running_as_root w then (Inr (0, 0), print_error PrivilegeDenied w)
      else (case emc_available_freq_range_paths_b (get_soc_family_b w) w of
              Inl e \<Rightarrow> (Inl e, w)
            | Inr None \<Rightarrow> (Inr (0, 0), print_error UnsupportedPlatform w)
            | Inr (Some (EMC_MIN_FREQ, EMC_MAX_FREQ)) \<Rightarrow>
                (case stoi (read_file EMC_MIN_FREQ w) of
                   Inl e \<Rightarrow> (Inl e, w)
                 | Inr min_freq \<Rightarrow>
                     (case stoi (read_file EMC_MAX_FREQ w) of
                        Inl e \<Rightarrow> (Inl e, w)
                      | Inr max_freq \<Rightarrow> (Inr (min_freq, max_freq), w)))))"

definition emc_freq_paths_b :: "string \<Rightarrow> (string \<times> string) option" where
  \<comment> \<open>\<^verbatim>\<open>EMC_UPDATE_FREQ\<close> and \<^verbatim>\<open>EMC_FREQ_OVERRIDE\<close>, the same chain in \<^verbatim>\<open>get_emc_freq\<close>
      and \<^verbatim>\<open>set_emc_freq\<close>\<close>
  "emc_freq_paths_b soc_family =
     (if soc_family = ''tegra186''
      then Some (''/sys/kernel/debug/bpmp/debug/clk/emc/rate'',
                 ''/sys/kernel/debug/bpmp/debug/clk/emc/mrq_rate_locked'')
      else if soc_family = ''tegra210''
      then Some (''/sys/kernel/debug/clk/override.emc/clk_update_rate'',
                 ''/sys/kernel/debug/clk/override.emc/clk_state'')
      else None)"

definition get_emc_freq_b :: "world \<Rightarrow> (error + int) \<times> world" where
  "get_emc_freq_b w =
     (if \<not> running_as_root w then (Inr 0, print_error PrivilegeDenied w)
      else (case emc_freq_paths_b (get_soc_family_b w) of
              None \<Rightarrow> (Inr 0, print_error UnsupportedPlatform w)
            | Some (EMC_UPDATE_FREQ, EMC_FREQ_OVERRIDE) \<Rightarrow>
                (stoi (read_file EMC_UPDATE_FREQ w), w)))"

definition set_emc_freq_b :: "int \<Rightarrow> world \<Rightarrow> (error + bool) \<times> world" where
  \<comment> \<open>the function ends with \<^verbatim>\<open>return true;\<close>, not with \<^verbatim>\<open>return success;\<close>\<close>
  "set_emc_freq_b freq w =
     (if \<not> running_as_root w then (Inr False, print_error PrivilegeDenied w)
      else (case get_emc_available_freq_range_b w of
              (Inl e, w0) \<Rightarrow> (Inl e, w0)
            | (Inr (min_freq, max_freq), w0) \<Rightarrow>
                if freq < min_freq \<or> freq > max_freq
                then (Inr False, print_error ValueNotAvailable w0)
                else (case emc_freq_paths_b (get_soc_family_b w0) of
                        None \<Rightarrow> (Inr False, print_error UnsupportedPlatform w0)
                      | Some (EMC_UPDATE_FREQ, EMC_FREQ_OVERRIDE) \<Rightarrow>
                          let (s1, w1) = write_file EMC_UPDATE_FREQ (to_string freq) w0;
                              (s2, w2) = write_file EMC_FREQ_OVERRIDE ''1'' w1;
                              success = (s1 \<and> s2)
                          in (Inr True, w2))))"

definition get_cpu_ids_b :: "world \<Rightarrow> int list \<times> world" where
  "get_cpu_ids_b w =
     (if \<not> running_as_root w then ([], print_error PrivilegeDenied w)
      else let all_subdirs = list_subdirs ''/sys/devices/system/cpu/'' w;
               cpu_subdirs = filter regex_match_cpu all_subdirs;
               ids = map (\<lambda>dir. int (of_char (last dir)) - 48) cpu_subdirs
           in (sort ids, w))"

definition get_cpu_available_freqs_b :: "int \<Rightarrow> world \<Rightarrow> int list \<times> world" where
  "get_cpu_available_freqs_b cpu_id w =
     (if \<not> running_as_root w then ([], print_error PrivilegeDenied w)
      else let path = ''/sys/devices/system/cpu/cpu'' @ to_string cpu_id @
                      ''/cpufreq/scaling_available_frequencies''
           in if \<not> file_exists path w then ([], print_error ResourceUnavailable w)
              else let speeds = read_longs (read_file path w)
                   in if length speeds = 0 then ([], print_error ResourceUnavailable w)
                      else (sort speeds, w))"

definition get_cpu_available_governors_b :: "int \<Rightarrow> world \<Rightarrow> string list \<times> world" where
  "get_cpu_available_governors_b cpu_id w =
     (if \<not> running_as_root w then ([], print_error PrivilegeDenied w)
      else let path = ''/sys/devices/system/cpu/cpu'' @ to_string cpu_id @
                      ''/cpufreq/scaling_available_governors''
           in if \<not> file_exists path w then ([], print_error ResourceUnavailable w)
              else (read_words (strip_newline (read_file path w)), w))"

definition get_cpu_governor_b :: "int \<Rightarrow> world \<Rightarrow> string \<times> world" where
  "get_cpu_governor_b cpu_id w =
     (if \<not> running_as_root w then ([], print_error PrivilegeDenied w)
      else let path = ''/sys/devices/system/cpu/cpu'' @ to_string cpu_id @
                      ''/cpufreq/scaling_governor''
           in if \<not> file_exists path w then ([], print_error ResourceUnavailable w)
              else (strip_newline (read_file path w), w))"

definition get_cpu_min_freq_b :: "int \<Rightarrow> world \<Rightarrow> (error + int) \<times> world" where
  "get_cpu_min_freq_b cpu_id w =
     (if \<not> running_as_root w then (Inr 0, print_error PrivilegeDenied w)
      else let path = ''/sys/devices/system/cpu/cpu'' @ to_string cpu_id @
                      ''/cpufreq/scaling_min_freq''
           in if \<not> file_exists path w then (Inr 0, print_error ResourceUnavailable w)
              else (stoi (read_file path w), w))"

definition get_cpu_max_freq_b :: "int \<Rightarrow> world \<Rightarrow> (error + int) \<times> world" where
  "get_cpu_max_freq_b cpu_id w =
     (if \<not> running_as_root w then (Inr 0, print_error PrivilegeDenied w)
      else let path = ''/sys/devices/system/cpu/cpu'' @ to_string cpu_id @
                      ''/cpufreq/scaling_max_freq''
           in if \<not> file_exists path w then (Inr 0, print_error ResourceUnavailable w)
              else (stoi (read_file path w), w))"

definition get_cpu_cur_freq_b :: "int \<Rightarrow> world \<Rightarrow> (error + int) \<times> world" where
  "get_cpu_cur_freq_b cpu_id w =
     (if \<not> running_as_root w then (Inr 0, print_error PrivilegeDenied w)
      else let path = ''/sys/devices/system/cpu/cpu'' @ to_string cpu_id @
                      ''/cpufreq/scaling_cur_freq''
           in if \<not> file_exists path w then (Inr 0, print_error ResourceUnavailable w)
              else (stoi (read_file path w), w))"

text \<open>
  The three setters accumulate the results of their writes in \<^verbatim>\<open>success\<close> and end
  with \<^verbatim>\<open>return true;\<close>.
\<close>

definition set_cpu_min_freq_b :: "int \<Rightarrow> int \<Rightarrow> world \<Rightarrow> bool \<times> world" where
  "set_cpu_min_freq_b cpu_id min_freq w =
     (if \<not> running_as_root w then (False, print_error PrivilegeDenied w)
      else let path = ''/sys/devices/system/cpu/cpu'' @ to_string cpu_id @
                      ''/cpufreq/scaling_min_freq''
           in if \<not> file_writable path w then (False, print_error ResourceUnavailable w)
              else let (available, w0) = get_cpu_available_freqs_b cpu_id w
                   in if length available = 0 then (False, print_error ResourceUnavailable w0)
                      else if min_freq \<notin> set available
                      then (False, print_error ValueNotAvailable w0)
                      else let (s1, w1) = write_file ''/sys/module/qos/parameters/enable'' ''0'' w0;
                               (s23, w3) =
                                 (if get_soc_family_b w1 = ''tegra186''
                                  then let (s2, w2) = write_file
                                             ''/sys/kernel/debug/tegra_cpufreq/M_CLUSTER/cc3/enable''
                                             ''0'' w1;
                                           (s3, w3) = write_file
                                             ''/sys/kernel/debug/tegra_cpufreq/B_CLUSTER/cc3/enable''
                                             ''0'' w2
                                       in (s2 \<and> s3, w3)
                                  else (True, w1));
                               (s4, w4) = write_file path (to_string min_freq) w3;
                               success = (s1 \<and> s23 \<and> s4)
                           in (True, w4))"

definition set_cpu_max_freq_b :: "int \<Rightarrow> int \<Rightarrow> world \<Rightarrow> bool \<times> world" where
  "set_cpu_max_freq_b cpu_id max_freq w =
     (if \<not> running_as_root w then (False, print_error PrivilegeDenied w)
      else let path = ''/sys/devices/system/cpu/cpu'' @ to_string cpu_id @
                      ''/cpufreq/scaling_max_freq''
           in if \<not> file_writable path w then (False, print_error ResourceUnavailable w)
              else let (available, w0) = get_cpu_available_freqs_b cpu_id w
                   in if length available = 0 then (False, print_error ResourceUnavailable w0)
                      else if max_freq \<notin> set available
                      then (False, print_error ValueNotAvailable w0)
                      else let (s1, w1) = write_file ''/sys/module/qos/parameters/enable'' ''0'' w0;
                               (s23, w3) =
                                 (if get_soc_family_b w1 = ''tegra186''
                                  then let (s2, w2) = write_file
                                             ''/sys/kernel/debug/tegra_cpufreq/M_CLUSTER/cc3/enable''
                                             ''0'' w1;
                                           (s3, w3) = write_file
                                             ''/sys/kernel/debug/tegra_cpufreq/B_CLUSTER/cc3/enable''
                                             ''0'' w2
                                       in (s2 \<and> s3, w3)
                                  else (True, w1));
                               (s4, w4) = write_file path (to_string max_freq) w3;
                               success = (s1 \<and> s23 \<and> s4)
                           in (True, w4))"

definition set_cpu_governor_b :: "int \<Rightarrow> string \<Rightarrow> world \<Rightarrow> bool \<times> world" where
  "set_cpu_governor_b cpu_id governor w =
     (if \<not> running_as_root w then (False, print_error PrivilegeDenied w)
      else let path = ''/sys/devices/system/cpu/cpu'' @ to_string cpu_id @
                      ''/cpufreq/scaling_governor''
           in if \<not> file_exists path w then (False, print_error ResourceUnavailable w)
              else let (available, w0) = get_cpu_available_governors_b cpu_id w
                   in if length available = 0 then (False, print_error ResourceUnavailable w0)
                      else if governor \<notin> set available
                      then (False, print_error ValueNotAvailable w0)
                      else let (s1, w1) = write_file ''/sys/module/qos/parameters/enable'' ''0'' w0;
                               (s23, w3) =
                                 (if get_soc_family_b w1 = ''tegra186''
                                  then let (s2, w2) = write_file
                                             ''/sys/kernel/debug/tegra_cpufreq/M_CLUSTER/cc3/enable''
                                             ''0'' w1;
                                           (s3, w3) = write_file
                                             ''/sys/kernel/debug/tegra_cpufreq/B_CLUSTER/cc3/enable''
                                             ''0'' w2
                                       in (s2 \<and> s3, w3)
                                  else (True, w1));
                               (s4, w4) = write_file path governor w3;
                               success = (s1 \<and> s23 \<and> s4)
                           in (True, w4))"

subsection \<open>Example machines\<close>

definition mk_file :: "string \<Rightarrow> vfile" where
  \<comment> \<open>a control file this process may read and write\<close>
  "mk_file s = \<lparr>content = s, can_read = True, can_write = True\<rparr>"

definition tk1_world :: world where
  \<comment> \<open>a Jetson TK1 seen by root: no family file, the model in the device tree, a fan file\<close>
  "tk1_world =
     \<lparr>euid = 0,
      files = [''/proc/device-tree/model'' \<mapsto> mk_file ''jetson-tk1'',
               ''/sys/kernel/debug/tegra_fan/target_pwm'' \<mapsto> mk_file ''80''],
      dir_entries = Map.empty,
      cout = []\<rparr>"

definition nano_compatible :: string where
  \<comment> \<open>a device-tree compatible property: strings that each end with a zero byte\<close>
  "nano_compatible =
     ''nvidia,jetson-nano'' @ [CHR 0x00] @ ''nvidia,tegra210'' @ [CHR 0x00]"

definition user_nano_world :: world where
  \<comment> \<open>a Jetson Nano seen by an ordinary user\<close>
  "user_nano_world =
     \<lparr>euid = 1000,
      files = [''/proc/device-tree/compatible'' \<mapsto> mk_file nano_compatible,
               ''/sys/devices/gpu.0/load'' \<mapsto> mk_file ''37''],
      dir_entries = Map.empty,
      cout = []\<rparr>"

definition tx2_world :: world where
  \<comment> \<open>a Jetson TX2 seen by root: the governor file is read-only, and neither the QoS
      file, the cluster files nor the EMC rate files exist\<close>
  "tx2_world =
     \<lparr>euid = 0,
      files =
        [''/sys/devices/soc0/family'' \<mapsto> mk_file ''tegra186'',
         ''/sys/devices/17000000.gp10b/devfreq/17000000.gp10b/available_frequencies''
           \<mapsto> mk_file ''100 900 500'',
         ''/sys/kernel/nvpmodel_emc_cap/emc_iso_cap'' \<mapsto> mk_file ''300'',
         ''/sys/kernel/debug/bpmp/debug/clk/emc/max_rate'' \<mapsto> mk_file ''900'',
         ''/sys/kernel/debug/bpmp/debug/clk/emc/min_rate'' \<mapsto> mk_file ''100'',
         ''/sys/devices/system/cpu/cpu0/cpufreq/scaling_available_frequencies''
           \<mapsto> mk_file ''100 200'',
         ''/sys/devices/system/cpu/cpu0/cpufreq/scaling_available_governors''
           \<mapsto> mk_file ''interactive performance'',
         ''/sys/devices/system/cpu/cpu0/cpufreq/scaling_min_freq'' \<mapsto> mk_file ''100'',
         ''/sys/devices/system/cpu/cpu0/cpufreq/scaling_max_freq'' \<mapsto> mk_file ''200'',
         ''/sys/devices/system/cpu/cpu0/cpufreq/scaling_governor''
           \<mapsto> \<lparr>content = ''interactive'', can_read = True, can_write = False\<rparr>],
      dir_entries = Map.empty,
      cout = []\<rparr>"

definition cpu0_no_target_world :: world where
  \<comment> \<open>root on a machine whose cpu0 lists its frequencies but has no
      \<^verbatim>\<open>scaling_min_freq\<close> file\<close>
  "cpu0_no_target_world =
     \<lparr>euid = 0,
      files = [''/sys/devices/soc0/family'' \<mapsto> mk_file ''tegra186'',
               ''/sys/devices/system/cpu/cpu0/cpufreq/scaling_available_frequencies''
                 \<mapsto> mk_file ''100 200''],
      dir_entries = Map.empty,
      cout = []\<rparr>"

definition bare_root_world :: world where
  \<comment> \<open>root on a machine with none of the files\<close>
  "bare_root_world = \<lparr>euid = 0, files = Map.empty, dir_entries = Map.empty, cout = []\<rparr>"

definition xavier_compatible :: string where
  \<comment> \<open>a device-tree compatible property: strings that each end with a zero byte\<close>
  "xavier_compatible =
     ''nvidia,jetson-xavier'' @ [CHR 0x00] @ ''nvidia,tegra194'' @ [CHR 0x00]"

definition xavier_compat_world :: world where
  \<comment> \<open>root on a Xavier that has no family file\<close>
  "xavier_compat_world =
     \<lparr>euid = 0,
      files = [''/proc/device-tree/compatible'' \<mapsto> mk_file xavier_compatible],
      dir_entries = Map.empty,
      cout = []\<rparr>"

definition xavier_world :: world where
  \<comment> \<open>root on a Xavier with its EMC files\<close>
  "xavier_world =
     \<lparr>euid = 0,
      files = [''/proc/device-tree/compatible'' \<mapsto> mk_file xavier_compatible,
               ''/sys/kernel/nvpmodel_emc_cap/emc_iso_cap'' \<mapsto> mk_file ''0'',
               ''/sys/kernel/debug/bpmp/debug/clk/emc/max_rate'' \<mapsto> mk_file ''2133'',
               ''/sys/kernel/debug/bpmp/debug/clk/emc/min_rate'' \<mapsto> mk_file ''204'',
               ''/sys/kernel/debug/bpmp/debug/clk/emc/rate'' \<mapsto> mk_file ''1600'',
               ''/sys/kernel/debug/bpmp/debug/clk/emc/mrq_rate_locked'' \<mapsto> mk_file ''0''],
      dir_entries = Map.empty,
      cout = []\<rparr>"

definition nano_family_world :: world where
  \<comment> \<open>root on a Nano whose family file holds the bare family name\<close>
  "nano_family_world =
     \<lparr>euid = 0,
      files = [''/sys/devices/soc0/family'' \<mapsto> mk_file ''tegra210''],
      dir_entries = Map.empty,
      cout = []\<rparr>"

definition tegra124_world :: world where
  \<comment> \<open>root on a board whose family file names a family the library does not know\<close>
  "tegra124_world =
     \<lparr>euid = 0,
      files = [''/sys/devices/soc0/family'' \<mapsto> mk_file ''tegra124''],
      dir_entries = Map.empty,
      cout = []\<rparr>"

subsection \<open>Notions used in the statements\<close>

definition supported_families :: "string set" where
  "supported_families = {''tegra186'', ''tegra194'', ''tegra210''}"

fun join_ws :: "(string \<times> int) list \<Rightarrow> string" where
  \<comment> \<open>the text made of integers, each written in decimal after its separator\<close>
  "join_ws [] = []"
| "join_ws ((sp, v) # rest) = sp @ to_string v @ join_ws rest"

definition well_spaced :: "(string \<times> int) list \<Rightarrow> bool" where
  \<comment> \<open>separators are white space, not empty except before the first integer, and the
      integers fit a 64-bit \<^verbatim>\<open>long int\<close>\<close>
  "well_spaced items =
     ((\<forall>(sp, v) \<in> set items. (\<forall>c \<in> set sp. isspace c) \<and> - (2 ^ 63) \<le> v \<and> v \<le> 2 ^ 63 - 1) \<and>
      (\<forall>(sp, v) \<in> set (tl items). sp \<noteq> []))"

fun resolves_to_directory :: "node \<Rightarrow> bool" where
  \<comment> \<open>a directory, or a chain of symbolic links that ends in one\<close>
  "resolves_to_directory Directory = True"
| "resolves_to_directory (SymlinkTo target) = resolves_to_directory target"
| "resolves_to_directory RegularFile = False"
| "resolves_to_directory DanglingSymlink = False"

definition listed_child :: "string \<times> node \<Rightarrow> bool" where
  \<comment> \<open>the entries that \<^verbatim>\<open>list_subdirs\<close> keeps\<close>
  "listed_child entry =
     (fst entry \<noteq> ''.'' \<and> fst entry \<noteq> ''..'' \<and> resolves_to_directory (snd entry))"

definition cpu_dir_listing :: "(string \<times> node) list" where
  \<comment> \<open>the two dot entries, two directories, a plain file, a symbolic link to a
      directory, one to a plain file and a dangling one\<close>
  "cpu_dir_listing =
     [(''.'', Directory), (''..'', Directory), (''cpu1'', Directory),
      (''online'', RegularFile), (''cpu0'', Directory),
      (''link_to_dir'', SymlinkTo Directory), (''link_to_file'', SymlinkTo RegularFile),
      (''broken'', DanglingSymlink)]"

definition cpu_dir_world :: world where
  "cpu_dir_world =
     \<lparr>euid = 0,
      files = Map.empty,
      dir_entries = [''/sys/devices/system/cpu/'' \<mapsto> cpu_dir_listing],
      cout = []\<rparr>"

definition newline_world :: world where
  \<comment> \<open>root on a TX2 whose family file ends with a line feed, as a kernel attribute does\<close>
  "newline_world =
     \<lparr>euid = 0,
      files = [''/sys/devices/soc0/family'' \<mapsto> mk_file (''tegra186'' @ [CHR 0x0A])],
      dir_entries = Map.empty,
      cout = []\<rparr>"

definition is_integer_token :: "string \<Rightarrow> bool" where
  \<comment> \<open>Following the wording of the specification: a white-space delimited token that is
      an integer, that is an optional sign and then decimal digits, and nothing else\<close>
  "is_integer_token t =
     (let (neg, ds) = signed_prefix t in ds \<noteq> [] \<and> list_all isdigit ds)"

definition integer_token_value :: "string \<Rightarrow> int" where
  "integer_token_value t =
     (let (neg, ds) = signed_prefix t
      in if neg then - int (dec_value ds) else int (dec_value ds))"

definition spec_delimited_integers :: "string \<Rightarrow> int list" where
  \<comment> \<open>Following the wording of the specification, not the source: "the whitespace-delimited
      integers" of a text, in the order in which they stand\<close>
  "spec_delimited_integers s =
     map integer_token_value (filter is_integer_token (read_words s))"

definition word_step :: "string list \<times> string \<Rightarrow> char \<Rightarrow> string list \<times> string" where
  \<comment> \<open>the step of \<open>read_words\<close>, named\<close>
  "word_step st c =
     (case st of (acc, cur) \<Rightarrow>
        if isspace c then (if cur = [] then (acc, []) else (acc @ [cur], []))
        else (acc, cur @ [c]))"

definition finish_words :: "string list \<times> string \<Rightarrow> string list" where
  "finish_words st = (case st of (acc, cur) \<Rightarrow> if cur = [] then acc else acc @ [cur])"

definition garbled_freqs_world :: world where
  \<comment> \<open>root on a TX2 whose frequency files hold more than integers\<close>
  "garbled_freqs_world =
     \<lparr>euid = 0,
      files =
        [''/sys/devices/soc0/family'' \<mapsto> mk_file ''tegra186'',
         ''/sys/devices/17000000.gp10b/devfreq/17000000.gp10b/available_frequencies''
           \<mapsto> mk_file ''500 0x10 7'',
         ''/sys/devices/system/cpu/cpu0/cpufreq/scaling_available_frequencies''
           \<mapsto> mk_file ''200 MHz 100''],
      dir_entries = Map.empty,
      cout = []\<rparr>"

definition cpu_world :: "string \<Rightarrow> world" where
  \<comment> \<open>root on a machine with the given family file and the control files of CPU 0\<close>
  "cpu_world family =
     \<lparr>euid = 0,
      files =
        [''/sys/devices/soc0/family'' \<mapsto> mk_file family,
         ''/sys/devices/system/cpu/cpu0/cpufreq/scaling_available_frequencies''
           \<mapsto> mk_file ''100 200'',
         ''/sys/devices/system/cpu/cpu0/cpufreq/scaling_available_governors''
           \<mapsto> mk_file ''interactive performance'',
         ''/sys/devices/system/cpu/cpu0/cpufreq/scaling_min_freq'' \<mapsto> mk_file ''200'',
         ''/sys/devices/system/cpu/cpu0/cpufreq/scaling_max_freq'' \<mapsto> mk_file ''200'',
         ''/sys/devices/system/cpu/cpu0/cpufreq/scaling_governor'' \<mapsto> mk_file ''interactive'',
         ''/sys/module/qos/parameters/enable'' \<mapsto> mk_file ''1'',
         ''/sys/kernel/debug/tegra_cpufreq/M_CLUSTER/cc3/enable'' \<mapsto> mk_file ''1'',
         ''/sys/kernel/debug/tegra_cpufreq/B_CLUSTER/cc3/enable'' \<mapsto> mk_file ''1''],
      dir_entries = Map.empty,
      cout = []\<rparr>"

section \<open>Properties\<close>

subsection \<open>The fan of the Jetson TK1\<close>

lemma u8_le_255: "(v :: 8 word) \<le> 255"
proof -
  have m: "(- 1 :: 8 word) = 255" by simp
  have "v \<le> - 1" by simp
  then show ?thesis by (simp only: m)
qed

text \<open>
  C6.  When the machine model is \<^verbatim>\<open>jetson-tk1\<close> and the caller is root, setting the fan
  speed succeeds for every speed and leaves the machine as it was, and reading the fan
  speed gives 255, the largest value of an \<^verbatim>\<open>unsigned char\<close>.  This holds in both
  editions, for every machine, so whatever fan files exist and whatever they hold.
\<close>

theorem fan_tk1:
  assumes "running_as_root w"
  shows "(get_machine w = Inr ''jetson-tk1'' \<longrightarrow>
           set_fan_speed speed w = (Inr (), w) \<and> get_fan_speed w = Inr 255) \<and>
         (get_machine_b w = ''jetson-tk1'' \<longrightarrow>
           set_fan_speed_b speed w = (True, w) \<and> get_fan_speed_b w = (Inr 255, w)) \<and>
         (\<forall>v :: 8 word. v \<le> 255)"
  using assms
  by (simp add: set_fan_speed_def get_fan_speed_def set_fan_speed_b_def get_fan_speed_b_def
      u8_le_255)

theorem fan_tk1_witness:
  "running_as_root tk1_world \<and>
   get_machine tk1_world = Inr ''jetson-tk1'' \<and>
   get_machine_b tk1_world = ''jetson-tk1'' \<and>
   set_fan_speed 128 tk1_world = (Inr (), tk1_world) \<and>
   get_fan_speed tk1_world = Inr 255 \<and>
   set_fan_speed_b 128 tk1_world = (True, tk1_world) \<and>
   get_fan_speed_b tk1_world = (Inr 255, tk1_world)"
proof -
  have r: "running_as_root tk1_world"
    by (simp add: running_as_root_def tk1_world_def)
  have m: "get_machine tk1_world = Inr ''jetson-tk1''"
    by (simp add: get_machine_def tk1_world_def file_exists_def open_file_def read_file_def
        mk_file_def)
  have mb: "get_machine_b tk1_world = ''jetson-tk1''"
    by (simp add: get_machine_b_def tk1_world_def file_exists_def open_file_def read_file_def
        mk_file_def)
  show ?thesis
    using fan_tk1 [OF r, of 128] r m mb by simp
qed

subsection \<open>Facts about the example machines\<close>

lemma user_nano_not_root: "\<not> running_as_root user_nano_world"
  by code_simp

lemma tx2_root: "running_as_root tx2_world"
  by code_simp

lemma tx2_family: "get_soc_family tx2_world = Inr ''tegra186''"
  by code_simp

lemma tx2_family_b: "get_soc_family_b tx2_world = ''tegra186''"
  by code_simp

lemma bare_root: "running_as_root bare_root_world"
  by code_simp

lemma bare_no_files: "\<not> file_exists name bare_root_world"
  by (simp add: file_exists_def open_file_def bare_root_world_def)

subsection \<open>What printing and reading leave alone\<close>

lemma files_print_error [simp]: "files (print_error e w) = files w"
  by (simp add: print_error_def)

lemma gpu_getter_b_files: "files (snd (get_gpu_available_freqs_b w)) = files w"
  by (simp add: get_gpu_available_freqs_b_def split: option.splits)

lemma emc_getter_b_files: "files (snd (get_emc_available_freq_range_b w)) = files w"
  by (simp add: get_emc_available_freq_range_b_def split: option.splits sum.splits prod.splits)

lemma cpu_freqs_getter_b_files: "files (snd (get_cpu_available_freqs_b cpu_id w)) = files w"
  by (simp add: get_cpu_available_freqs_b_def Let_def)

lemma cpu_govs_getter_b_files: "files (snd (get_cpu_available_governors_b cpu_id w)) = files w"
  by (simp add: get_cpu_available_governors_b_def Let_def)

subsection \<open>The privilege gate\<close>

lemma user_nano_family: "get_soc_family user_nano_world = Inr ''tegra210''"
  by code_simp

lemma user_nano_usage: "get_gpu_current_usage user_nano_world = Inr 37"
  by code_simp

text \<open>
  C1.  The claim asks every public operation to fail with the privilege error for a
  caller who is not root.  \<^verbatim>\<open>get_gpu_current_usage\<close> of the exception edition, a
  public GPU getter, does not: it is the one operation on a control file that does not
  start with the \<^verbatim>\<open>running_as_root\<close> test which its siblings
  \<^verbatim>\<open>get_gpu_cur_freq\<close>, \<^verbatim>\<open>get_gpu_min_freq\<close> and \<^verbatim>\<open>get_gpu_max_freq\<close> start with.
  For an ordinary user on a Nano whose load file holds 37 it reads the file and
  returns 37, where the sibling getter fails with the privilege error.
\<close>

theorem gpu_usage_unprivileged:
  "\<not> running_as_root user_nano_world \<and>
   get_soc_family user_nano_world = Inr ''tegra210'' \<and>
   get_gpu_current_usage user_nano_world = Inr 37 \<and>
   get_gpu_current_usage user_nano_world \<noteq> Inl PrivilegeDenied \<and>
   get_gpu_cur_freq user_nano_world = Inl PrivilegeDenied"
  by (simp add: user_nano_not_root user_nano_family user_nano_usage get_gpu_cur_freq_def)

text \<open>
  Every other public operation, board identification (\<^verbatim>\<open>get_soc_family\<close>,
  \<^verbatim>\<open>get_machine\<close>) apart, keeps the gate: called by a caller who is not root it
  fails with the privilege error and writes no file, on every machine, so the privilege
  test comes before every other step.  In the exception edition the operation throws
  and the machine is unchanged; in the boolean edition it prints the privilege message,
  changes no file and returns its failure value (\<^verbatim>\<open>false\<close>, zero, the empty
  container).
\<close>

theorem privilege_gate:
  assumes "\<not> running_as_root w"
  shows "set_fan_speed speed w = (Inl PrivilegeDenied, w) \<and>
         get_fan_speed w = Inl PrivilegeDenied \<and>
         get_gpu_available_freqs w = Inl PrivilegeDenied \<and>
         set_gpu_freq_range min_freq max_freq w = (Inl PrivilegeDenied, w) \<and>
         get_gpu_cur_freq w = Inl PrivilegeDenied \<and>
         get_gpu_min_freq w = Inl PrivilegeDenied \<and>
         get_gpu_max_freq w = Inl PrivilegeDenied \<and>
         get_emc_available_freqs w = Inl PrivilegeDenied \<and>
         get_emc_freq w = Inl PrivilegeDenied \<and>
         set_emc_freq freq w = (Inl PrivilegeDenied, w) \<and>
         get_cpu_ids w = Inl PrivilegeDenied \<and>
         get_cpu_available_freqs cpu_id w = Inl PrivilegeDenied \<and>
         get_cpu_available_governors cpu_id w = Inl PrivilegeDenied \<and>
         get_cpu_governor cpu_id w = Inl PrivilegeDenied \<and>
         get_cpu_min_freq cpu_id w = Inl PrivilegeDenied \<and>
         get_cpu_max_freq cpu_id w = Inl PrivilegeDenied \<and>
         get_cpu_cur_freq cpu_id w = Inl PrivilegeDenied \<and>
         set_cpu_min_freq cpu_id min_freq w = (Inl PrivilegeDenied, w) \<and>
         set_cpu_max_freq cpu_id max_freq w = (Inl PrivilegeDenied, w) \<and>
         set_cpu_governor cpu_id governor w = (Inl PrivilegeDenied, w) \<and>
         set_fan_speed_b speed w = (False, print_error PrivilegeDenied w) \<and>
         get_fan_speed_b w = (Inr 0, print_error PrivilegeDenied w) \<and>
         get_gpu_available_freqs_b w = ([], print_error PrivilegeDenied w) \<and>
         set_gpu_freq_range_b min_freq max_freq w = (False, print_error PrivilegeDenied w) \<and>
         get_emc_available_freq_range_b w = (Inr (0, 0), print_error PrivilegeDenied w) \<and>
         get_emc_freq_b w = (Inr 0, print_error PrivilegeDenied w) \<and>
         set_emc_freq_b freq w = (Inr False, print_error PrivilegeDenied w) \<and>
         get_cpu_ids_b w = ([], print_error PrivilegeDenied w) \<and>
         get_cpu_available_freqs_b cpu_id w = ([], print_error PrivilegeDenied w) \<and>
         get_cpu_available_governors_b cpu_id w = ([], print_error PrivilegeDenied w) \<and>
         get_cpu_governor_b cpu_id w = ([], print_error PrivilegeDenied w) \<and>
         get_cpu_min_freq_b cpu_id w = (Inr 0, print_error PrivilegeDenied w) \<and>
         get_cpu_max_freq_b cpu_id w = (Inr 0, print_error PrivilegeDenied w) \<and>
         get_cpu_cur_freq_b cpu_id w = (Inr 0, print_error PrivilegeDenied w) \<and>
         set_cpu_min_freq_b cpu_id min_freq w = (False, print_error PrivilegeDenied w) \<and>
         set_cpu_max_freq_b cpu_id max_freq w = (False, print_error PrivilegeDenied w) \<and>
         set_cpu_governor_b cpu_id governor w = (False, print_error PrivilegeDenied w) \<and>
         files (print_error PrivilegeDenied w) = files w \<and>
         cout (print_error PrivilegeDenied w) = cout w @ [PrivilegeDenied]"
  using assms
  by (simp add: set_fan_speed_def get_fan_speed_def get_gpu_available_freqs_def
      set_gpu_freq_range_def get_gpu_cur_freq_def get_gpu_min_freq_def get_gpu_max_freq_def
      get_emc_available_freqs_def get_emc_freq_def set_emc_freq_def get_cpu_ids_def
      get_cpu_available_freqs_def get_cpu_available_governors_def get_cpu_governor_def
      get_cpu_min_freq_def get_cpu_max_freq_def get_cpu_cur_freq_def set_cpu_min_freq_def
      set_cpu_max_freq_def set_cpu_governor_def
      set_fan_speed_b_def get_fan_speed_b_def get_gpu_available_freqs_b_def
      set_gpu_freq_range_b_def get_emc_available_freq_range_b_def get_emc_freq_b_def
      set_emc_freq_b_def get_cpu_ids_b_def get_cpu_available_freqs_b_def
      get_cpu_available_governors_b_def get_cpu_governor_b_def get_cpu_min_freq_b_def
      get_cpu_max_freq_b_def get_cpu_cur_freq_b_def set_cpu_min_freq_b_def
      set_cpu_max_freq_b_def set_cpu_governor_b_def print_error_def)

theorem privilege_gate_witness:
  "\<not> running_as_root user_nano_world \<and>
   set_fan_speed 255 user_nano_world = (Inl PrivilegeDenied, user_nano_world) \<and>
   get_gpu_available_freqs user_nano_world = Inl PrivilegeDenied \<and>
   set_cpu_min_freq 0 102000 user_nano_world = (Inl PrivilegeDenied, user_nano_world) \<and>
   set_fan_speed_b 255 user_nano_world = (False, print_error PrivilegeDenied user_nano_world) \<and>
   files (print_error PrivilegeDenied user_nano_world) = files user_nano_world"
  using privilege_gate [OF user_nano_not_root, where speed = 255 and cpu_id = 0 and
      min_freq = 102000]
    user_nano_not_root
  by simp

subsection \<open>Rejected values\<close>

lemma reject_gpu:
  assumes "running_as_root w" "get_gpu_available_freqs w = Inr avail"
    "min_freq \<notin> set avail \<or> max_freq \<notin> set avail"
  shows "set_gpu_freq_range min_freq max_freq w = (Inl ValueNotAvailable, w)"
  using assms by (auto simp: set_gpu_freq_range_def)

lemma reject_emc:
  assumes "running_as_root w" "get_emc_available_freqs w = Inr [lo, hi]"
    "freq < lo \<or> hi < freq"
  shows "set_emc_freq freq w = (Inl ValueNotAvailable, w)"
  using assms by (auto simp: set_emc_freq_def)

lemma reject_cpu_min:
  assumes "running_as_root w" "get_cpu_available_freqs cpu_id w = Inr avail" "f \<notin> set avail"
  shows "set_cpu_min_freq cpu_id f w =
    (Inl (if file_writable (''/sys/devices/system/cpu/cpu'' @ to_string cpu_id @
                            ''/cpufreq/scaling_min_freq'') w
          then ValueNotAvailable else ResourceUnavailable), w)"
  using assms by (simp add: set_cpu_min_freq_def)

lemma reject_cpu_max:
  assumes "running_as_root w" "get_cpu_available_freqs cpu_id w = Inr avail" "f \<notin> set avail"
  shows "set_cpu_max_freq cpu_id f w =
    (Inl (if file_writable (''/sys/devices/system/cpu/cpu'' @ to_string cpu_id @
                            ''/cpufreq/scaling_max_freq'') w
          then ValueNotAvailable else ResourceUnavailable), w)"
  using assms by (simp add: set_cpu_max_freq_def)

lemma reject_cpu_governor:
  assumes "running_as_root w" "get_cpu_available_governors cpu_id w = Inr avail"
    "g \<notin> set avail"
  shows "set_cpu_governor cpu_id g w =
    (Inl (if file_exists (''/sys/devices/system/cpu/cpu'' @ to_string cpu_id @
                          ''/cpufreq/scaling_governor'') w
          then ValueNotAvailable else ResourceUnavailable), w)"
  using assms by (simp add: set_cpu_governor_def)

lemma reject_gpu_b:
  assumes "running_as_root w" "get_gpu_available_freqs_b w = (avail, w0)"
    "min_freq \<notin> set avail \<or> max_freq \<notin> set avail"
  shows "set_gpu_freq_range_b min_freq max_freq w = (False, print_error ValueNotAvailable w0) \<and>
         files w0 = files w"
  using assms gpu_getter_b_files [of w] by (auto simp: set_gpu_freq_range_b_def)

lemma reject_emc_b:
  assumes "running_as_root w" "get_emc_available_freq_range_b w = (Inr (lo, hi), w0)"
    "freq < lo \<or> hi < freq"
  shows "set_emc_freq_b freq w = (Inr False, print_error ValueNotAvailable w0) \<and>
         files w0 = files w"
  using assms emc_getter_b_files [of w] by (auto simp: set_emc_freq_b_def)

lemma reject_cpu_min_b:
  assumes "running_as_root w" "get_cpu_available_freqs_b cpu_id w = (avail, w0)"
    "f \<notin> set avail"
  shows "set_cpu_min_freq_b cpu_id f w =
    (if \<not> file_writable (''/sys/devices/system/cpu/cpu'' @ to_string cpu_id @
                            ''/cpufreq/scaling_min_freq'') w
     then (False, print_error ResourceUnavailable w)
     else if avail = [] then (False, print_error ResourceUnavailable w0)
     else (False, print_error ValueNotAvailable w0)) \<and> files w0 = files w"
  using assms cpu_freqs_getter_b_files [of cpu_id w] by (simp add: set_cpu_min_freq_b_def)

lemma reject_cpu_max_b:
  assumes "running_as_root w" "get_cpu_available_freqs_b cpu_id w = (avail, w0)"
    "f \<notin> set avail"
  shows "set_cpu_max_freq_b cpu_id f w =
    (if \<not> file_writable (''/sys/devices/system/cpu/cpu'' @ to_string cpu_id @
                            ''/cpufreq/scaling_max_freq'') w
     then (False, print_error ResourceUnavailable w)
     else if avail = [] then (False, print_error ResourceUnavailable w0)
     else (False, print_error ValueNotAvailable w0)) \<and> files w0 = files w"
  using assms cpu_freqs_getter_b_files [of cpu_id w] by (simp add: set_cpu_max_freq_b_def)

lemma reject_cpu_governor_b:
  assumes "running_as_root w" "get_cpu_available_governors_b cpu_id w = (avail, w0)"
    "g \<notin> set avail"
  shows "set_cpu_governor_b cpu_id g w =
    (if \<not> file_exists (''/sys/devices/system/cpu/cpu'' @ to_string cpu_id @
                          ''/cpufreq/scaling_governor'') w
     then (False, print_error ResourceUnavailable w)
     else if avail = [] then (False, print_error ResourceUnavailable w0)
     else (False, print_error ValueNotAvailable w0)) \<and> files w0 = files w"
  using assms cpu_govs_getter_b_files [of cpu_id w] by (simp add: set_cpu_governor_b_def)

lemma cpu0_no_target_facts:
  "running_as_root cpu0_no_target_world"
  "get_cpu_available_freqs 0 cpu0_no_target_world = Inr [100, 200]"
  "\<not> file_writable (''/sys/devices/system/cpu/cpu'' @ to_string 0 @
                     ''/cpufreq/scaling_min_freq'') cpu0_no_target_world"
  by code_simp+

text \<open>
  C2, as the claim states it, fails for the per-CPU setters: they test their target file
  before they validate the value.  On a machine whose cpu0 offers the frequencies 100
  and 200 and has no \<^verbatim>\<open>scaling_min_freq\<close> file, asking for 300 is refused with the
  resource error, not the value error.
\<close>

theorem cpu_setter_reports_target_first:
  "running_as_root cpu0_no_target_world \<and>
   get_cpu_available_freqs 0 cpu0_no_target_world = Inr [100, 200] \<and>
   (300 :: int) \<notin> set [100, 200] \<and>
   set_cpu_min_freq 0 300 cpu0_no_target_world = (Inl ResourceUnavailable, cpu0_no_target_world) \<and>
   fst (set_cpu_min_freq 0 300 cpu0_no_target_world) \<noteq> Inl ValueNotAvailable"
proof -
  have "(300 :: int) \<notin> set [100, 200]" by simp
  from reject_cpu_min [OF cpu0_no_target_facts(1) cpu0_no_target_facts(2) this]
  show ?thesis
    using cpu0_no_target_facts by simp
qed

text \<open>
  C2, amended.  A setter called by root with a value that is not in the available set
  (for EMC: outside the available range) that its getter returns fails and writes no
  file, so none of the QoS and cluster files either.  The failure is the value error,
  except where an earlier test of the setter fails first: the per-CPU setters report the
  target file as unavailable when it is not writable (minimum and maximum frequency) or
  does not exist (governor), and those of the boolean edition also when the available
  set is empty.  The exception edition leaves the machine unchanged; the boolean edition
  only prints.
\<close>

theorem setter_rejects_unavailable:
  assumes "running_as_root w"
  shows
    "(get_gpu_available_freqs w = Inr gpu_avail \<and>
      (min_freq \<notin> set gpu_avail \<or> max_freq \<notin> set gpu_avail) \<longrightarrow>
        set_gpu_freq_range min_freq max_freq w = (Inl ValueNotAvailable, w)) \<and>
     (get_emc_available_freqs w = Inr [lo, hi] \<and> (freq < lo \<or> hi < freq) \<longrightarrow>
        set_emc_freq freq w = (Inl ValueNotAvailable, w)) \<and>
     (get_cpu_available_freqs cpu_id w = Inr cpu_avail \<and> f \<notin> set cpu_avail \<longrightarrow>
        set_cpu_min_freq cpu_id f w =
          (Inl (if file_writable (''/sys/devices/system/cpu/cpu'' @ to_string cpu_id @
                                  ''/cpufreq/scaling_min_freq'') w
                then ValueNotAvailable else ResourceUnavailable), w) \<and>
        set_cpu_max_freq cpu_id f w =
          (Inl (if file_writable (''/sys/devices/system/cpu/cpu'' @ to_string cpu_id @
                                  ''/cpufreq/scaling_max_freq'') w
                then ValueNotAvailable else ResourceUnavailable), w)) \<and>
     (get_cpu_available_governors cpu_id w = Inr govs \<and> g \<notin> set govs \<longrightarrow>
        set_cpu_governor cpu_id g w =
          (Inl (if file_exists (''/sys/devices/system/cpu/cpu'' @ to_string cpu_id @
                                ''/cpufreq/scaling_governor'') w
                then ValueNotAvailable else ResourceUnavailable), w)) \<and>
     (get_gpu_available_freqs_b w = (gpu_avail_b, wg) \<and>
      (min_freq \<notin> set gpu_avail_b \<or> max_freq \<notin> set gpu_avail_b) \<longrightarrow>
        set_gpu_freq_range_b min_freq max_freq w = (False, print_error ValueNotAvailable wg) \<and>
        files wg = files w) \<and>
     (get_emc_available_freq_range_b w = (Inr (lo_b, hi_b), we) \<and>
      (freq < lo_b \<or> hi_b < freq) \<longrightarrow>
        set_emc_freq_b freq w = (Inr False, print_error ValueNotAvailable we) \<and>
        files we = files w) \<and>
     (get_cpu_available_freqs_b cpu_id w = (cpu_avail_b, wc) \<and> f \<notin> set cpu_avail_b \<longrightarrow>
        set_cpu_min_freq_b cpu_id f w =
          (if \<not> file_writable (''/sys/devices/system/cpu/cpu'' @ to_string cpu_id @
                                  ''/cpufreq/scaling_min_freq'') w
           then (False, print_error ResourceUnavailable w)
           else if cpu_avail_b = [] then (False, print_error ResourceUnavailable wc)
           else (False, print_error ValueNotAvailable wc)) \<and>
        set_cpu_max_freq_b cpu_id f w =
          (if \<not> file_writable (''/sys/devices/system/cpu/cpu'' @ to_string cpu_id @
                                  ''/cpufreq/scaling_max_freq'') w
           then (False, print_error ResourceUnavailable w)
           else if cpu_avail_b = [] then (False, print_error ResourceUnavailable wc)
           else (False, print_error ValueNotAvailable wc)) \<and>
        files wc = files w) \<and>
     (get_cpu_available_governors_b cpu_id w = (govs_b, wv) \<and> g \<notin> set govs_b \<longrightarrow>
        set_cpu_governor_b cpu_id g w =
          (if \<not> file_exists (''/sys/devices/system/cpu/cpu'' @ to_string cpu_id @
                                ''/cpufreq/scaling_governor'') w
           then (False, print_error ResourceUnavailable w)
           else if govs_b = [] then (False, print_error ResourceUnavailable wv)
           else (False, print_error ValueNotAvailable wv)) \<and>
        files wv = files w)"
proof -
  have "get_gpu_available_freqs w = Inr gpu_avail \<and>
      (min_freq \<notin> set gpu_avail \<or> max_freq \<notin> set gpu_avail) \<longrightarrow>
        set_gpu_freq_range min_freq max_freq w = (Inl ValueNotAvailable, w)"
    using reject_gpu [OF assms] by blast
  moreover have "get_emc_available_freqs w = Inr [lo, hi] \<and> (freq < lo \<or> hi < freq) \<longrightarrow>
        set_emc_freq freq w = (Inl ValueNotAvailable, w)"
    using reject_emc [OF assms] by blast
  moreover have "get_cpu_available_freqs cpu_id w = Inr cpu_avail \<and> f \<notin> set cpu_avail \<longrightarrow>
        set_cpu_min_freq cpu_id f w =
          (Inl (if file_writable (''/sys/devices/system/cpu/cpu'' @ to_string cpu_id @
                                  ''/cpufreq/scaling_min_freq'') w
                then ValueNotAvailable else ResourceUnavailable), w) \<and>
        set_cpu_max_freq cpu_id f w =
          (Inl (if file_writable (''/sys/devices/system/cpu/cpu'' @ to_string cpu_id @
                                  ''/cpufreq/scaling_max_freq'') w
                then ValueNotAvailable else ResourceUnavailable), w)"
    using reject_cpu_min [OF assms] reject_cpu_max [OF assms] by blast
  moreover have "get_cpu_available_governors cpu_id w = Inr govs \<and> g \<notin> set govs \<longrightarrow>
        set_cpu_governor cpu_id g w =
          (Inl (if file_exists (''/sys/devices/system/cpu/cpu'' @ to_string cpu_id @
                                ''/cpufreq/scaling_governor'') w
                then ValueNotAvailable else ResourceUnavailable), w)"
    using reject_cpu_governor [OF assms] by blast
  moreover have "get_gpu_available_freqs_b w = (gpu_avail_b, wg) \<and>
      (min_freq \<notin> set gpu_avail_b \<or> max_freq \<notin> set gpu_avail_b) \<longrightarrow>
        set_gpu_freq_range_b min_freq max_freq w = (False, print_error ValueNotAvailable wg) \<and>
        files wg = files w"
    using reject_gpu_b [OF assms] by blast
  moreover have "get_emc_available_freq_range_b w = (Inr (lo_b, hi_b), we) \<and>
      (freq < lo_b \<or> hi_b < freq) \<longrightarrow>
        set_emc_freq_b freq w = (Inr False, print_error ValueNotAvailable we) \<and>
        files we = files w"
    using reject_emc_b [OF assms] by blast
  moreover have "get_cpu_available_freqs_b cpu_id w = (cpu_avail_b, wc) \<and>
      f \<notin> set cpu_avail_b \<longrightarrow>
        set_cpu_min_freq_b cpu_id f w =
          (if \<not> file_writable (''/sys/devices/system/cpu/cpu'' @ to_string cpu_id @
                                  ''/cpufreq/scaling_min_freq'') w
           then (False, print_error ResourceUnavailable w)
           else if cpu_avail_b = [] then (False, print_error ResourceUnavailable wc)
           else (False, print_error ValueNotAvailable wc)) \<and>
        set_cpu_max_freq_b cpu_id f w =
          (if \<not> file_writable (''/sys/devices/system/cpu/cpu'' @ to_string cpu_id @
                                  ''/cpufreq/scaling_max_freq'') w
           then (False, print_error ResourceUnavailable w)
           else if cpu_avail_b = [] then (False, print_error ResourceUnavailable wc)
           else (False, print_error ValueNotAvailable wc)) \<and>
        files wc = files w"
    using reject_cpu_min_b [OF assms] reject_cpu_max_b [OF assms] by blast
  moreover have "get_cpu_available_governors_b cpu_id w = (govs_b, wv) \<and>
      g \<notin> set govs_b \<longrightarrow>
        set_cpu_governor_b cpu_id g w =
          (if \<not> file_exists (''/sys/devices/system/cpu/cpu'' @ to_string cpu_id @
                                ''/cpufreq/scaling_governor'') w
           then (False, print_error ResourceUnavailable w)
           else if govs_b = [] then (False, print_error ResourceUnavailable wv)
           else (False, print_error ValueNotAvailable wv)) \<and>
        files wv = files w"
    using reject_cpu_governor_b [OF assms] by blast
  ultimately show ?thesis
    by (intro conjI)
qed
lemma tx2_getters:
  "get_gpu_available_freqs tx2_world = Inr [100, 500, 900]"
  "get_emc_available_freqs tx2_world = Inr [100, 300]"
  "get_cpu_available_freqs 0 tx2_world = Inr [100, 200]"
  "get_cpu_available_governors 0 tx2_world = Inr [''interactive'', ''performance'']"
  by code_simp+

lemma tx2_targets:
  "file_writable (''/sys/devices/system/cpu/cpu'' @ to_string 0 @
                  ''/cpufreq/scaling_min_freq'') tx2_world"
  "file_writable (''/sys/devices/system/cpu/cpu'' @ to_string 0 @
                  ''/cpufreq/scaling_max_freq'') tx2_world"
  "file_exists (''/sys/devices/system/cpu/cpu'' @ to_string 0 @
                ''/cpufreq/scaling_governor'') tx2_world"
  "\<not> file_writable (''/sys/devices/system/cpu/cpu'' @ to_string 0 @
                  ''/cpufreq/scaling_governor'') tx2_world"
  by code_simp+

lemma tx2_reads:
  "sort (read_longs (read_file
     ''/sys/devices/17000000.gp10b/devfreq/17000000.gp10b/available_frequencies''
     tx2_world)) = [100, 500, 900]"
  "stoi (read_file ''/sys/kernel/nvpmodel_emc_cap/emc_iso_cap'' tx2_world) = Inr 300"
  "stoi (read_file ''/sys/kernel/debug/bpmp/debug/clk/emc/max_rate'' tx2_world) = Inr 900"
  "stoi (read_file ''/sys/kernel/debug/bpmp/debug/clk/emc/min_rate'' tx2_world) = Inr 100"
  "file_exists (''/sys/devices/system/cpu/cpu'' @ to_string 0 @
                ''/cpufreq/scaling_available_frequencies'') tx2_world"
  "read_longs (read_file (''/sys/devices/system/cpu/cpu'' @ to_string 0 @
                ''/cpufreq/scaling_available_frequencies'') tx2_world) = [100, 200]"
  "file_exists (''/sys/devices/system/cpu/cpu'' @ to_string 0 @
                ''/cpufreq/scaling_available_governors'') tx2_world"
  "read_words (strip_newline (read_file (''/sys/devices/system/cpu/cpu'' @ to_string 0 @
                ''/cpufreq/scaling_available_governors'') tx2_world)) =
     [''interactive'', ''performance'']"
  by code_simp+

lemma tx2_getters_b:
  "get_gpu_available_freqs_b tx2_world = ([100, 500, 900], tx2_world)"
  "get_emc_available_freq_range_b tx2_world = (Inr (100, 300), tx2_world)"
  "get_cpu_available_freqs_b 0 tx2_world = ([100, 200], tx2_world)"
  "get_cpu_available_governors_b 0 tx2_world = ([''interactive'', ''performance''], tx2_world)"
  using tx2_reads
  by (simp_all add: get_gpu_available_freqs_b_def get_emc_available_freq_range_b_def
      get_cpu_available_freqs_b_def get_cpu_available_governors_b_def tx2_root tx2_family_b
      gpu_available_freqs_path_b_def emc_available_freq_range_paths_b_def)

theorem setter_rejects_unavailable_witness:
  "running_as_root tx2_world \<and>
   get_gpu_available_freqs tx2_world = Inr [100, 500, 900] \<and>
   set_gpu_freq_range 150 900 tx2_world = (Inl ValueNotAvailable, tx2_world) \<and>
   get_emc_available_freqs tx2_world = Inr [100, 300] \<and>
   set_emc_freq 1000 tx2_world = (Inl ValueNotAvailable, tx2_world) \<and>
   get_cpu_available_freqs 0 tx2_world = Inr [100, 200] \<and>
   set_cpu_min_freq 0 300 tx2_world = (Inl ValueNotAvailable, tx2_world) \<and>
   set_cpu_max_freq 0 300 tx2_world = (Inl ValueNotAvailable, tx2_world) \<and>
   get_cpu_available_governors 0 tx2_world = Inr [''interactive'', ''performance''] \<and>
   set_cpu_governor 0 ''turbo'' tx2_world = (Inl ValueNotAvailable, tx2_world) \<and>
   set_gpu_freq_range_b 150 900 tx2_world = (False, print_error ValueNotAvailable tx2_world) \<and>
   set_emc_freq_b 1000 tx2_world = (Inr False, print_error ValueNotAvailable tx2_world) \<and>
   set_cpu_min_freq_b 0 300 tx2_world = (False, print_error ValueNotAvailable tx2_world) \<and>
   set_cpu_max_freq_b 0 300 tx2_world = (False, print_error ValueNotAvailable tx2_world) \<and>
   set_cpu_governor_b 0 ''turbo'' tx2_world =
     (False, print_error ValueNotAvailable tx2_world)"
  using setter_rejects_unavailable [OF tx2_root, where gpu_avail = "[100, 500, 900]" and
      min_freq = 150 and max_freq = 900 and lo = 100 and hi = 300 and freq = 1000 and
      cpu_id = 0 and cpu_avail = "[100, 200]" and f = 300 and
      govs = "[''interactive'', ''performance'']" and g = "''turbo''" and
      gpu_avail_b = "[100, 500, 900]" and wg = tx2_world and lo_b = 100 and hi_b = 300 and
      we = tx2_world and cpu_avail_b = "[100, 200]" and wc = tx2_world and
      govs_b = "[''interactive'', ''performance'']" and wv = tx2_world]
    tx2_root tx2_getters tx2_targets tx2_getters_b
  by simp

subsection \<open>Finding the family\<close>

lemma str_find_sublist: "str_find s pat = sublist pat s"
  by (induction s) (simp_all add: sublist_Cons_right)

lemma xavier_compat_facts:
  "\<not> file_exists ''/sys/devices/soc0/family'' xavier_compat_world"
  "file_exists ''/proc/device-tree/compatible'' xavier_compat_world"
  "read_file ''/proc/device-tree/compatible'' xavier_compat_world = xavier_compatible"
  by (simp_all add: file_exists_def read_file_def open_file_def xavier_compat_world_def
      mk_file_def)

lemma xavier_finds:
  "str_find xavier_compatible ''nvidia,tegra194''"
  "\<not> str_find xavier_compatible ''nvidia,tegra210''"
  "\<not> str_find xavier_compatible ''nvidia,tegra186''"
  by (simp_all add: xavier_compatible_def)

lemma nano_family_facts:
  "file_exists ''/sys/devices/soc0/family'' nano_family_world"
  "read_file ''/sys/devices/soc0/family'' nano_family_world = ''tegra210''"
  by (simp_all add: file_exists_def read_file_def open_file_def nano_family_world_def
      mk_file_def)

text \<open>
  C3, as the claim states it, holds for neither edition.  The exception edition, the one
  that knows \<^verbatim>\<open>nvidia,tegra194\<close>, throws when neither identification file exists.
  The boolean edition, the one that returns the empty family then, does not look for
  \<^verbatim>\<open>nvidia,tegra194\<close>: on a Xavier without a family file it returns the empty family.
\<close>

theorem soc_family_editions_differ:
  "\<not> file_exists ''/sys/devices/soc0/family'' bare_root_world \<and>
   \<not> file_exists ''/proc/device-tree/compatible'' bare_root_world \<and>
   get_soc_family bare_root_world = Inl UnsupportedPlatform \<and>
   \<not> file_exists ''/sys/devices/soc0/family'' xavier_compat_world \<and>
   sublist ''nvidia,tegra194'' (read_file ''/proc/device-tree/compatible'' xavier_compat_world) \<and>
   get_soc_family_b xavier_compat_world = []"
  by (simp add: get_soc_family_def get_soc_family_b_def bare_no_files xavier_compat_facts
      xavier_finds str_find_sublist [symmetric])

text \<open>
  C3, amended.  Both editions prefer the family file and return its content.  Without
  it they read the device-tree compatible file and look for \<^verbatim>\<open>nvidia,tegra210\<close>, then
  \<^verbatim>\<open>nvidia,tegra186\<close>, and the exception edition then \<^verbatim>\<open>nvidia,tegra194\<close>, anywhere
  in it; the first one found decides, and the family is empty when none is found.  When
  neither file exists the boolean edition returns the empty family and the exception
  edition fails.
\<close>

theorem soc_family_sources:
  "(file_exists ''/sys/devices/soc0/family'' w \<longrightarrow>
      get_soc_family w = Inr (read_file ''/sys/devices/soc0/family'' w) \<and>
      get_soc_family_b w = read_file ''/sys/devices/soc0/family'' w) \<and>
   (\<not> file_exists ''/sys/devices/soc0/family'' w \<and>
    file_exists ''/proc/device-tree/compatible'' w \<longrightarrow>
      get_soc_family w =
        Inr (if sublist ''nvidia,tegra210'' (read_file ''/proc/device-tree/compatible'' w)
             then ''tegra210''
             else if sublist ''nvidia,tegra186'' (read_file ''/proc/device-tree/compatible'' w)
             then ''tegra186''
             else if sublist ''nvidia,tegra194'' (read_file ''/proc/device-tree/compatible'' w)
             then ''tegra194''
             else []) \<and>
      get_soc_family_b w =
        (if sublist ''nvidia,tegra210'' (read_file ''/proc/device-tree/compatible'' w)
         then ''tegra210''
         else if sublist ''nvidia,tegra186'' (read_file ''/proc/device-tree/compatible'' w)
         then ''tegra186''
         else [])) \<and>
   (\<not> file_exists ''/sys/devices/soc0/family'' w \<and>
    \<not> file_exists ''/proc/device-tree/compatible'' w \<longrightarrow>
      get_soc_family w = Inl UnsupportedPlatform \<and> get_soc_family_b w = [])"
  by (simp add: get_soc_family_def get_soc_family_b_def str_find_sublist Let_def)

theorem soc_family_sources_witness:
  "file_exists ''/sys/devices/soc0/family'' nano_family_world \<and>
   get_soc_family nano_family_world = Inr ''tegra210'' \<and>
   get_soc_family_b nano_family_world = ''tegra210'' \<and>
   \<not> file_exists ''/sys/devices/soc0/family'' xavier_compat_world \<and>
   file_exists ''/proc/device-tree/compatible'' xavier_compat_world \<and>
   get_soc_family xavier_compat_world = Inr ''tegra194'' \<and>
   get_soc_family_b xavier_compat_world = [] \<and>
   \<not> file_exists ''/sys/devices/soc0/family'' bare_root_world \<and>
   \<not> file_exists ''/proc/device-tree/compatible'' bare_root_world \<and>
   get_soc_family bare_root_world = Inl UnsupportedPlatform \<and>
   get_soc_family_b bare_root_world = []"
  using soc_family_sources [of nano_family_world] soc_family_sources [of xavier_compat_world]
    soc_family_sources [of bare_root_world]
    nano_family_facts xavier_compat_facts bare_no_files xavier_finds
  by (simp add: str_find_sublist [symmetric])

subsection \<open>Resolving paths\<close>

lemma tegra124_facts:
  "running_as_root tegra124_world"
  "get_soc_family tegra124_world = Inr ''tegra124''"
  by code_simp+

lemma tx2_gpu_cur_freq: "get_gpu_cur_freq tx2_world = Inl ResourceUnavailable"
  by code_simp

lemma paths_supported:
  assumes "fam \<in> supported_families"
  shows "(\<exists>p. gpu_available_freqs_path fam = Some p \<and> p \<noteq> []) \<and>
         (\<exists>a b c. gpu_freq_range_paths fam = Some (a, b, c) \<and> a \<noteq> [] \<and> b \<noteq> [] \<and> c \<noteq> []) \<and>
         (\<exists>a b. set_emc_freq_paths fam = Some (a, b) \<and> a \<noteq> [] \<and> b \<noteq> []) \<and>
         (emc_available_freqs_paths fam w = Inl ParseFailure \<or>
          (\<exists>a b. emc_available_freqs_paths fam w = Inr (a, b) \<and> a \<noteq> [] \<and> b \<noteq> []))"
proof -
  have stoi_err: "stoi s = Inl e \<Longrightarrow> e = ParseFailure" for s e
    by (auto simp: stoi_def Let_def split: prod.splits if_splits)
  have "emc_available_freqs_paths fam w = Inl ParseFailure \<or>
        (\<exists>a b. emc_available_freqs_paths fam w = Inr (a, b) \<and> a \<noteq> [] \<and> b \<noteq> [])"
    using assms
    by (auto simp: supported_families_def emc_available_freqs_paths_def
        split: sum.splits dest: stoi_err)
  then show ?thesis
    using assms
    by (auto simp: supported_families_def gpu_available_freqs_path_def
        gpu_freq_range_paths_def set_emc_freq_paths_def)
qed

lemma gpu_paths_distinct:
  assumes "fam \<in> supported_families" "fam' \<in> supported_families" "fam \<noteq> fam'"
  shows "gpu_available_freqs_path fam \<noteq> gpu_available_freqs_path fam' \<and>
         gpu_freq_range_paths fam \<noteq> gpu_freq_range_paths fam'"
  using assms
  by (auto simp: supported_families_def gpu_available_freqs_path_def gpu_freq_range_paths_def)

lemma paths_unsupported:
  assumes "fam \<notin> supported_families"
  shows "gpu_available_freqs_path fam = None \<and> gpu_freq_range_paths fam = None \<and>
         gpu_cur_freq_path fam = None \<and> gpu_min_freq_path fam = None \<and>
         gpu_max_freq_path fam = None \<and> set_emc_freq_paths fam = None \<and>
         emc_available_freqs_paths fam w = Inl UnsupportedPlatform \<and>
         (fam \<noteq> ''tagra194'' \<longrightarrow> get_emc_freq_paths fam = None)"
  using assms
  by (simp add: supported_families_def gpu_available_freqs_path_def gpu_freq_range_paths_def
      gpu_cur_freq_path_def gpu_min_freq_path_def gpu_max_freq_path_def
      set_emc_freq_paths_def emc_available_freqs_paths_def get_emc_freq_paths_def)

lemma ops_unsupported:
  assumes "running_as_root w" "get_soc_family w = Inr fam" "fam \<notin> supported_families"
  shows "get_gpu_available_freqs w = Inl UnsupportedPlatform \<and>
         set_gpu_freq_range min_freq max_freq w = (Inl UnsupportedPlatform, w) \<and>
         get_gpu_cur_freq w = Inl UnsupportedPlatform \<and>
         get_gpu_min_freq w = Inl UnsupportedPlatform \<and>
         get_gpu_max_freq w = Inl UnsupportedPlatform \<and>
         get_emc_available_freqs w = Inl UnsupportedPlatform \<and>
         set_emc_freq freq w = (Inl UnsupportedPlatform, w) \<and>
         (fam \<noteq> ''tagra194'' \<longrightarrow> get_emc_freq w = Inl UnsupportedPlatform)"
  using assms paths_unsupported [OF assms(3), of w]
  by (simp add: get_gpu_available_freqs_def set_gpu_freq_range_def get_gpu_cur_freq_def
      get_gpu_min_freq_def get_gpu_max_freq_def get_emc_available_freqs_def set_emc_freq_def
      get_emc_freq_def)

lemma get_emc_freq_misses_tegra194:
  "get_emc_freq_paths ''tegra194'' = None \<and> set_emc_freq_paths ''tegra194'' \<noteq> None"
  by (simp add: get_emc_freq_paths_def set_emc_freq_paths_def)

lemma xavier_facts:
  "running_as_root xavier_world"
  "get_soc_family xavier_world = Inr ''tegra194''"
  "get_emc_available_freqs xavier_world = Inr [204, 2133]"
  "fst (set_emc_freq 2133 xavier_world) = Inr ()"
  "get_emc_freq xavier_world = Inl UnsupportedPlatform"
  by code_simp+

text \<open>
  C4.  The claim asks every GPU and EMC frequency operation to resolve a path set that
  is not empty on each of tegra186, tegra194 and tegra210.  Two places of the exception
  edition do not.
  \<^item> \<^verbatim>\<open>get_emc_freq\<close> compares the family with \<^verbatim>\<open>"tagra194"\<close>, where
    \<^verbatim>\<open>set_emc_freq\<close> and \<^verbatim>\<open>get_emc_available_freqs\<close> compare it with
    \<^verbatim>\<open>"tegra194"\<close>.  For root on a Xavier the available range is read and the
    frequency is set, but reading the frequency fails with the unsupported-family error.
  \<^item> The current, minimum and maximum GPU frequency getters set the empty path in their
    tegra186 and tegra210 branches, which are marked \<^verbatim>\<open>// TODO\<close>.  On a TX2 the
    current-frequency getter fails because the file "does not exist".
\<close>

theorem path_resolution_gaps:
  "''tegra194'' \<in> supported_families \<and>
   running_as_root xavier_world \<and>
   get_soc_family xavier_world = Inr ''tegra194'' \<and>
   get_emc_available_freqs xavier_world = Inr [204, 2133] \<and>
   fst (set_emc_freq 2133 xavier_world) = Inr () \<and>
   get_emc_freq xavier_world = Inl UnsupportedPlatform \<and>
   get_emc_freq_paths ''tegra194'' = None \<and>
   ''tegra186'' \<in> supported_families \<and>
   running_as_root tx2_world \<and>
   get_soc_family tx2_world = Inr ''tegra186'' \<and>
   gpu_cur_freq_path ''tegra186'' = Some [] \<and>
   get_gpu_cur_freq tx2_world = Inl ResourceUnavailable"
  by (simp add: supported_families_def xavier_facts get_emc_freq_misses_tegra194
      gpu_cur_freq_path_def tx2_root tx2_family tx2_gpu_cur_freq)

text \<open>
  What path resolution does guarantee.  For the GPU available-frequencies getter, the
  GPU range setter, the EMC available-frequencies getter and the EMC setter, each of the
  three families resolves to paths that are not empty (the EMC getter reads two of its
  files on the way and may fail to parse them), and the GPU paths of two different
  families differ.  The current, minimum and maximum GPU frequency getters resolve a
  path that is not empty for tegra194.  The EMC frequency getter resolves paths that
  are not empty for tegra186 and tegra210.  For any family value other than the three,
  every one of these resolutions takes the unsupported branch and the operation, called
  by root, fails with the unsupported-platform error and writes nothing; for the EMC
  frequency getter this is stated for the values other than \<^verbatim>\<open>tagra194\<close>.
\<close>

theorem path_resolution:
  "(fam \<in> supported_families \<longrightarrow>
      (\<exists>p. gpu_available_freqs_path fam = Some p \<and> p \<noteq> []) \<and>
      (\<exists>a b c. gpu_freq_range_paths fam = Some (a, b, c) \<and> a \<noteq> [] \<and> b \<noteq> [] \<and> c \<noteq> []) \<and>
      (\<exists>a b. set_emc_freq_paths fam = Some (a, b) \<and> a \<noteq> [] \<and> b \<noteq> []) \<and>
      (emc_available_freqs_paths fam w = Inl ParseFailure \<or>
       (\<exists>a b. emc_available_freqs_paths fam w = Inr (a, b) \<and> a \<noteq> [] \<and> b \<noteq> []))) \<and>
   (fam \<in> supported_families \<and> fam' \<in> supported_families \<and> fam \<noteq> fam' \<longrightarrow>
      gpu_available_freqs_path fam \<noteq> gpu_available_freqs_path fam' \<and>
      gpu_freq_range_paths fam \<noteq> gpu_freq_range_paths fam') \<and>
   (\<exists>p. gpu_cur_freq_path ''tegra194'' = Some p \<and> p \<noteq> []) \<and>
   (\<exists>p. gpu_min_freq_path ''tegra194'' = Some p \<and> p \<noteq> []) \<and>
   (\<exists>p. gpu_max_freq_path ''tegra194'' = Some p \<and> p \<noteq> []) \<and>
   (fam = ''tegra186'' \<or> fam = ''tegra210'' \<longrightarrow>
      gpu_cur_freq_path fam = Some [] \<and> gpu_min_freq_path fam = Some [] \<and>
      gpu_max_freq_path fam = Some [] \<and>
      (\<exists>a b. get_emc_freq_paths fam = Some (a, b) \<and> a \<noteq> [] \<and> b \<noteq> [])) \<and>
   (fam \<notin> supported_families \<longrightarrow>
      gpu_available_freqs_path fam = None \<and> gpu_freq_range_paths fam = None \<and>
      gpu_cur_freq_path fam = None \<and> gpu_min_freq_path fam = None \<and>
      gpu_max_freq_path fam = None \<and> set_emc_freq_paths fam = None \<and>
      emc_available_freqs_paths fam w = Inl UnsupportedPlatform \<and>
      (fam \<noteq> ''tagra194'' \<longrightarrow> get_emc_freq_paths fam = None)) \<and>
   (running_as_root w \<and> get_soc_family w = Inr fam \<and> fam \<notin> supported_families \<longrightarrow>
      get_gpu_available_freqs w = Inl UnsupportedPlatform \<and>
      set_gpu_freq_range min_freq max_freq w = (Inl UnsupportedPlatform, w) \<and>
      get_gpu_cur_freq w = Inl UnsupportedPlatform \<and>
      get_gpu_min_freq w = Inl UnsupportedPlatform \<and>
      get_gpu_max_freq w = Inl UnsupportedPlatform \<and>
      get_emc_available_freqs w = Inl UnsupportedPlatform \<and>
      set_emc_freq freq w = (Inl UnsupportedPlatform, w) \<and>
      (fam \<noteq> ''tagra194'' \<longrightarrow> get_emc_freq w = Inl UnsupportedPlatform))"
proof -
  have "(\<exists>p. gpu_cur_freq_path ''tegra194'' = Some p \<and> p \<noteq> []) \<and>
        (\<exists>p. gpu_min_freq_path ''tegra194'' = Some p \<and> p \<noteq> []) \<and>
        (\<exists>p. gpu_max_freq_path ''tegra194'' = Some p \<and> p \<noteq> [])"
    by (simp add: gpu_cur_freq_path_def gpu_min_freq_path_def gpu_max_freq_path_def)
  moreover have "fam = ''tegra186'' \<or> fam = ''tegra210'' \<longrightarrow>
      gpu_cur_freq_path fam = Some [] \<and> gpu_min_freq_path fam = Some [] \<and>
      gpu_max_freq_path fam = Some [] \<and>
      (\<exists>a b. get_emc_freq_paths fam = Some (a, b) \<and> a \<noteq> [] \<and> b \<noteq> [])"
    by (auto simp: gpu_cur_freq_path_def gpu_min_freq_path_def gpu_max_freq_path_def
        get_emc_freq_paths_def)
  ultimately show ?thesis
    using paths_supported [of fam w] gpu_paths_distinct [of fam fam']
      paths_unsupported [of fam w] ops_unsupported [of w fam min_freq max_freq freq]
    by blast
qed

theorem path_resolution_witness:
  "''tegra186'' \<in> supported_families \<and> ''tegra194'' \<in> supported_families \<and>
   (\<exists>p. gpu_available_freqs_path ''tegra186'' = Some p \<and> p \<noteq> []) \<and>
   gpu_available_freqs_path ''tegra186'' \<noteq> gpu_available_freqs_path ''tegra194'' \<and>
   gpu_cur_freq_path ''tegra186'' = Some [] \<and>
   ''tegra124'' \<notin> supported_families \<and>
   gpu_available_freqs_path ''tegra124'' = None \<and>
   running_as_root tegra124_world \<and> get_soc_family tegra124_world = Inr ''tegra124'' \<and>
   get_gpu_available_freqs tegra124_world = Inl UnsupportedPlatform \<and>
   set_gpu_freq_range 100 900 tegra124_world = (Inl UnsupportedPlatform, tegra124_world) \<and>
   set_emc_freq 500 tegra124_world = (Inl UnsupportedPlatform, tegra124_world) \<and>
   get_emc_freq tegra124_world = Inl UnsupportedPlatform"
  using path_resolution [of "''tegra186''" tx2_world "''tegra194''"]
    path_resolution [of "''tegra124''" tegra124_world _ 100 900 500]
    tegra124_facts
  by (simp add: supported_families_def)

subsection \<open>The EMC iso-cap\<close>

text \<open>
  C5.  On tegra186 and tegra194 (tegra186 in the boolean edition), for root, when the
  iso-cap file, the nominal maximum file and the minimum file hold numbers: if the cap is
  positive and less than the nominal maximum, the maximum path is the iso-cap file and
  the maximum reported is the cap; otherwise the maximum path is the nominal maximum
  file and its value is reported.
\<close>

theorem emc_iso_cap:
  assumes "running_as_root w"
    and "stoi (read_file ''/sys/kernel/nvpmodel_emc_cap/emc_iso_cap'' w) = Inr cap"
    and "stoi (read_file ''/sys/kernel/debug/bpmp/debug/clk/emc/max_rate'' w) = Inr fmax"
    and "stoi (read_file ''/sys/kernel/debug/bpmp/debug/clk/emc/min_rate'' w) = Inr fmin"
  shows "(get_soc_family w = Inr fam \<and> (fam = ''tegra186'' \<or> fam = ''tegra194'') \<longrightarrow>
           emc_available_freqs_paths fam w =
             Inr (''/sys/kernel/debug/bpmp/debug/clk/emc/min_rate'',
                  if 0 < cap \<and> cap < fmax
                  then ''/sys/kernel/nvpmodel_emc_cap/emc_iso_cap''
                  else ''/sys/kernel/debug/bpmp/debug/clk/emc/max_rate'') \<and>
           get_emc_available_freqs w = Inr [fmin, if 0 < cap \<and> cap < fmax then cap else fmax]) \<and>
         (get_soc_family_b w = ''tegra186'' \<longrightarrow>
           get_emc_available_freq_range_b w =
             (Inr (fmin, if 0 < cap \<and> cap < fmax then cap else fmax), w))"
  using assms
  by (auto simp: get_emc_available_freqs_def emc_available_freqs_paths_def
      get_emc_available_freq_range_b_def emc_available_freq_range_paths_b_def)

lemma xavier_emc_reads:
  "stoi (read_file ''/sys/kernel/nvpmodel_emc_cap/emc_iso_cap'' xavier_world) = Inr 0"
  "stoi (read_file ''/sys/kernel/debug/bpmp/debug/clk/emc/max_rate'' xavier_world) = Inr 2133"
  "stoi (read_file ''/sys/kernel/debug/bpmp/debug/clk/emc/min_rate'' xavier_world) = Inr 204"
  by code_simp+

theorem emc_iso_cap_witness:
  "running_as_root tx2_world \<and>
   stoi (read_file ''/sys/kernel/nvpmodel_emc_cap/emc_iso_cap'' tx2_world) = Inr 300 \<and>
   stoi (read_file ''/sys/kernel/debug/bpmp/debug/clk/emc/max_rate'' tx2_world) = Inr 900 \<and>
   stoi (read_file ''/sys/kernel/debug/bpmp/debug/clk/emc/min_rate'' tx2_world) = Inr 100 \<and>
   get_soc_family tx2_world = Inr ''tegra186'' \<and>
   get_soc_family_b tx2_world = ''tegra186'' \<and>
   emc_available_freqs_paths ''tegra186'' tx2_world =
     Inr (''/sys/kernel/debug/bpmp/debug/clk/emc/min_rate'',
          ''/sys/kernel/nvpmodel_emc_cap/emc_iso_cap'') \<and>
   get_emc_available_freqs tx2_world = Inr [100, 300] \<and>
   get_emc_available_freq_range_b tx2_world = (Inr (100, 300), tx2_world) \<and>
   running_as_root xavier_world \<and>
   stoi (read_file ''/sys/kernel/nvpmodel_emc_cap/emc_iso_cap'' xavier_world) = Inr 0 \<and>
   stoi (read_file ''/sys/kernel/debug/bpmp/debug/clk/emc/max_rate'' xavier_world) = Inr 2133 \<and>
   get_soc_family xavier_world = Inr ''tegra194'' \<and>
   emc_available_freqs_paths ''tegra194'' xavier_world =
     Inr (''/sys/kernel/debug/bpmp/debug/clk/emc/min_rate'',
          ''/sys/kernel/debug/bpmp/debug/clk/emc/max_rate'') \<and>
   get_emc_available_freqs xavier_world = Inr [204, 2133]"
  using emc_iso_cap [OF tx2_root tx2_reads(2) tx2_reads(3) tx2_reads(4), of "''tegra186''"]
    emc_iso_cap [OF xavier_facts(1) xavier_emc_reads, of "''tegra194''"]
    tx2_root tx2_reads(2,3,4) tx2_family tx2_family_b xavier_facts(1,2) xavier_emc_reads
  by simp

subsection \<open>Reading the available frequencies\<close>

lemma digit_char_props:
  assumes "d < 10"
  shows "isdigit (digit_char d)" and "digit_val (digit_char d) = d"
proof -
  from assms have "d = 0 \<or> d = 1 \<or> d = 2 \<or> d = 3 \<or> d = 4 \<or> d = 5 \<or> d = 6 \<or> d = 7 \<or>
      d = 8 \<or> d = 9"
    by arith
  then show "isdigit (digit_char d)" and "digit_val (digit_char d) = d"
    by (auto simp: digit_char_def isdigit_def digit_val_def)
qed

lemma dec_digits_all_digits: "\<forall>c \<in> set (dec_digits n). isdigit c"
proof (induction n rule: dec_digits.induct)
  case (1 n)
  show ?case
  proof (cases "n < 10")
    case True
    then show ?thesis by (simp add: dec_digits.simps [of n] digit_char_props)
  next
    case False
    with 1 show ?thesis by (simp add: dec_digits.simps [of n] digit_char_props)
  qed
qed

lemma dec_digits_not_empty: "dec_digits n \<noteq> []"
  by (simp add: dec_digits.simps [of n])

lemma dec_value_snoc: "dec_value (ds @ [c]) = 10 * dec_value ds + digit_val c"
  by (simp add: dec_value_def)

lemma dec_value_dec_digits: "dec_value (dec_digits n) = n"
proof (induction n rule: dec_digits.induct)
  case (1 n)
  show ?case
  proof (cases "n < 10")
    case True
    then show ?thesis
      by (simp add: dec_digits.simps [of n] dec_value_def digit_char_props)
  next
    case False
    with 1 show ?thesis
      by (simp add: dec_digits.simps [of n] dec_value_snoc digit_char_props)
  qed
qed

lemma isspace_not_digit: "isspace c \<Longrightarrow> \<not> isdigit c"
  by (auto simp: isspace_def isdigit_def Let_def)

lemma isdigit_not_sign: "isdigit c \<Longrightarrow> c \<noteq> CHR ''-'' \<and> c \<noteq> CHR ''+'' \<and> \<not> isspace c"
  by (auto simp: isspace_def isdigit_def Let_def)

lemma take_digits:
  assumes "rest = [] \<or> \<not> isdigit (hd rest)"
  shows "takeWhile isdigit (dec_digits n @ rest) = dec_digits n"
    and "dropWhile isdigit (dec_digits n @ rest) = rest"
  using assms dec_digits_all_digits [of n]
  by (cases rest; simp add: takeWhile_append2 dropWhile_append2 takeWhile_eq_all_conv)+

lemma signed_prefix_to_string:
  "signed_prefix (to_string v @ rest) = (v < 0, dec_digits (nat \<bar>v\<bar>) @ rest)"
proof (cases "v < 0")
  case True
  then show ?thesis by (simp add: to_string_def signed_prefix_def)
next
  case False
  obtain c cs where cs: "dec_digits (nat v) = c # cs"
    using dec_digits_not_empty [of "nat v"] by (cases "dec_digits (nat v)") auto
  then have "isdigit c"
    using dec_digits_all_digits [of "nat v"] by simp
  with False cs show ?thesis
    by (simp add: to_string_def signed_prefix_def isdigit_not_sign)
qed

lemma drop_space_to_string:
  assumes "\<forall>c \<in> set sp. isspace c"
  shows "dropWhile isspace (sp @ to_string v @ rest) = to_string v @ rest"
proof -
  obtain c cs where cs: "dec_digits (nat \<bar>v\<bar>) = c # cs"
    using dec_digits_not_empty [of "nat \<bar>v\<bar>"] by (cases "dec_digits (nat \<bar>v\<bar>)") auto
  then have d: "isdigit c"
    using dec_digits_all_digits [of "nat \<bar>v\<bar>"] by simp
  have "\<not> isspace (hd (to_string v @ rest))"
  proof (cases "v < 0")
    case True
    then show ?thesis by (simp add: to_string_def isspace_def)
  next
    case False
    then have "nat \<bar>v\<bar> = nat v" by simp
    with False cs d show ?thesis
      by (simp add: to_string_def isdigit_not_sign)
  qed
  moreover have "to_string v @ rest \<noteq> []"
    by (simp add: to_string_def dec_digits_not_empty)
  ultimately have "dropWhile isspace (to_string v @ rest) = to_string v @ rest"
    by (cases "to_string v @ rest") auto
  with assms show ?thesis
    by (simp add: dropWhile_append2)
qed

lemma extract_long_to_string:
  assumes "\<forall>c \<in> set sp. isspace c" "- (2 ^ 63) \<le> v" "v \<le> 2 ^ 63 - 1"
    "rest = [] \<or> \<not> isdigit (hd rest)"
  shows "extract_long (sp @ to_string v @ rest) = Some (v, rest)"
proof -
  have v: "(if v < 0 then - int (nat \<bar>v\<bar>) else int (nat \<bar>v\<bar>)) = v" by simp
  have d: "dropWhile isspace (sp @ to_string v @ rest) = to_string v @ rest"
    by (rule drop_space_to_string [OF assms(1)])
  show ?thesis
    unfolding extract_long_def d signed_prefix_to_string
    using assms(2,3) v
    by (simp add: Let_def take_digits [OF assms(4)] dec_value_dec_digits
        dec_digits_not_empty)
qed

lemma read_longs_spaces:
  assumes "\<forall>c \<in> set trail. isspace c"
  shows "read_longs trail = []"
proof -
  have d: "dropWhile isspace trail = []" using assms by simp
  show ?thesis
    unfolding read_longs.simps [of trail] extract_long_def d
    by (simp add: signed_prefix_def)
qed

lemma read_longs_join_ws:
  assumes "well_spaced items" "\<forall>c \<in> set trail. isspace c"
  shows "read_longs (join_ws items @ trail) = map snd items"
  using assms(1)
proof (induction items)
  case Nil
  then show ?case using assms(2) by (simp add: read_longs_spaces)
next
  case (Cons item items)
  obtain sp v where item: "item = (sp, v)" by (cases item)
  from Cons.prems item have sp: "\<forall>c \<in> set sp. isspace c"
    and lo: "- (2 ^ 63) \<le> v" and hi: "v \<le> 2 ^ 63 - 1"
    by (auto simp: well_spaced_def)
  have ws: "well_spaced items"
    using Cons.prems by (cases items) (auto simp: well_spaced_def)
  have nd: "join_ws items @ trail = [] \<or> \<not> isdigit (hd (join_ws items @ trail))"
  proof (cases items)
    case Nil
    then show ?thesis using assms(2) by (cases trail) (auto dest: isspace_not_digit)
  next
    case (Cons next_item more)
    obtain sp' v' where ni: "next_item = (sp', v')" by (cases next_item)
    with Cons Cons.prems have "sp' \<noteq> []" and "\<forall>c \<in> set sp'. isspace c"
      unfolding \<open>items = next_item # more\<close> by (auto simp: well_spaced_def)
    then show ?thesis
      using Cons ni by (cases sp') (auto dest: isspace_not_digit)
  qed
  have "extract_long (sp @ to_string v @ (join_ws items @ trail)) =
          Some (v, join_ws items @ trail)"
    by (rule extract_long_to_string [OF sp lo hi nd])
  then have "read_longs (join_ws (item # items) @ trail) = v # read_longs (join_ws items @ trail)"
    by (simp add: item read_longs.simps [of "sp @ to_string v @ join_ws items @ trail"])
  with Cons.IH [OF ws] item show ?case by simp
qed


lemma tx2_gpu_file:
  "read_file ''/sys/devices/17000000.gp10b/devfreq/17000000.gp10b/available_frequencies''
     tx2_world = join_ws [([], 100), ('' '', 900), ('' '', 500)] @ []"
  "read_file (''/sys/devices/system/cpu/cpu'' @ to_string 0 @
              ''/cpufreq/scaling_available_frequencies'') tx2_world =
     join_ws [([], 100), ('' '', 200)] @ []"
  by code_simp+

lemma example_well_spaced:
  "well_spaced [([], 100), ('' '', 900), ('' '', 500)]"
  "well_spaced [([], 100), ('' '', 200)]"
  by (simp_all add: well_spaced_def isspace_def)

lemma read_words_alt: "read_words s = finish_words (foldl word_step ([], []) s)"
proof -
  have "(\<lambda>(acc, cur) c.
          if isspace c then (if cur = [] then (acc, []) else (acc @ [cur], []))
          else (acc, cur @ [c])) = word_step"
    by (rule ext)+ (simp add: word_step_def split: prod.splits)
  then show ?thesis
    by (simp add: read_words_def finish_words_def Let_def split: prod.splits)
qed

lemma foldl_word_step_spaces:
  assumes "\<forall>c \<in> set s. isspace c"
  shows "finish_words (foldl word_step (acc, cur) s) = finish_words (acc, cur)"
  using assms
  by (induction s arbitrary: acc cur) (simp_all add: word_step_def finish_words_def)

lemma foldl_word_step_separator:
  assumes "\<forall>c \<in> set s. isspace c" "s \<noteq> []"
  shows "foldl word_step (acc, cur) s = (finish_words (acc, cur), [])"
  using assms
proof (induction s arbitrary: acc cur)
  case Nil
  then show ?case by simp
next
  case (Cons c s)
  show ?case
  proof (cases "s = []")
    case True
    with Cons.prems show ?thesis by (simp add: word_step_def finish_words_def)
  next
    case False
    with Cons show ?thesis by (simp add: word_step_def finish_words_def)
  qed
qed

lemma foldl_word_step_token:
  assumes "\<forall>c \<in> set tok. \<not> isspace c"
  shows "foldl word_step (acc, cur) (tok @ rest) = foldl word_step (acc, cur @ tok) rest"
  using assms
  by (induction tok arbitrary: cur) (simp_all add: word_step_def)

lemma to_string_no_space: "\<forall>c \<in> set (to_string v). \<not> isspace c"
proof
  fix c
  assume c: "c \<in> set (to_string v)"
  show "\<not> isspace c"
  proof (cases "c = CHR ''-''")
    case True
    then show ?thesis by (simp add: isspace_def)
  next
    case False
    with c have "c \<in> set (dec_digits (nat (- v))) \<or> c \<in> set (dec_digits (nat v))"
      by (auto simp: to_string_def split: if_splits)
    then have "isdigit c"
      using dec_digits_all_digits [of "nat (- v)"] dec_digits_all_digits [of "nat v"]
      by blast
    then show ?thesis by (simp add: isdigit_not_sign)
  qed
qed

lemma to_string_not_empty: "to_string v \<noteq> []"
  by (simp add: to_string_def dec_digits_not_empty)

lemma words_of_spaced:
  assumes "\<forall>(sp, v) \<in> set items. (\<forall>c \<in> set sp. isspace c) \<and> sp \<noteq> []"
    and "\<forall>c \<in> set trail. isspace c"
  shows "finish_words (foldl word_step (acc, cur) (join_ws items @ trail)) =
         finish_words (acc, cur) @ map (\<lambda>(sp, v). to_string v) items"
  using assms(1)
proof (induction items arbitrary: acc cur)
  case Nil
  then show ?case using assms(2) by (simp add: foldl_word_step_spaces)
next
  case (Cons item items)
  obtain sp v where item: "item = (sp, v)" by (cases item)
  from Cons.prems item have sp: "\<forall>c \<in> set sp. isspace c" "sp \<noteq> []" by auto
  from Cons.prems have rest: "\<forall>(sp, v) \<in> set items. (\<forall>c \<in> set sp. isspace c) \<and> sp \<noteq> []"
    by simp
  have "foldl word_step (acc, cur) (join_ws (item # items) @ trail) =
        foldl word_step (finish_words (acc, cur), []) (to_string v @ join_ws items @ trail)"
    by (simp add: item foldl_word_step_separator [OF sp])
  also have "\<dots> = foldl word_step (finish_words (acc, cur), to_string v) (join_ws items @ trail)"
    using foldl_word_step_token [OF to_string_no_space, of "finish_words (acc, cur)" "[]" v]
    by simp
  finally show ?case
    using Cons.IH [OF rest, of "finish_words (acc, cur)" "to_string v"]
    by (simp add: item finish_words_def to_string_not_empty)
qed

lemma read_words_join_ws:
  assumes "well_spaced items" "\<forall>c \<in> set trail. isspace c"
  shows "read_words (join_ws items @ trail) = map (\<lambda>(sp, v). to_string v) items"
proof (cases items)
  case Nil
  then show ?thesis
    using assms(2) foldl_word_step_spaces [of trail "[]" "[]"]
    by (simp add: read_words_alt finish_words_def)
next
  case (Cons item rest)
  obtain sp v where item: "item = (sp, v)" by (cases item)
  from assms(1) Cons item have sp: "\<forall>c \<in> set sp. isspace c"
    by (auto simp: well_spaced_def)
  from assms(1) Cons have rest: "\<forall>(sp, v) \<in> set rest. (\<forall>c \<in> set sp. isspace c) \<and> sp \<noteq> []"
    by (auto simp: well_spaced_def)
  have "foldl word_step ([], []) sp = ([], [])"
    using sp by (induction sp) (simp_all add: word_step_def)
  then have "foldl word_step ([], []) (join_ws items @ trail) =
        foldl word_step ([], []) (to_string v @ join_ws rest @ trail)"
    by (simp add: Cons item)
  also have "\<dots> = foldl word_step ([], to_string v) (join_ws rest @ trail)"
    using foldl_word_step_token [OF to_string_no_space, of "[]" "[]" v] by simp
  finally show ?thesis
    using words_of_spaced [OF rest assms(2), of "[]" "to_string v"]
    by (simp add: read_words_alt Cons item finish_words_def to_string_not_empty)
qed

lemma integer_token_to_string:
  "is_integer_token (to_string v)" "integer_token_value (to_string v) = v"
proof -
  have sp: "signed_prefix (to_string v) = (v < 0, dec_digits (nat \<bar>v\<bar>))"
    using signed_prefix_to_string [of v "[]"] by simp
  show "is_integer_token (to_string v)"
    using dec_digits_all_digits [of "nat \<bar>v\<bar>"]
    by (simp add: is_integer_token_def sp dec_digits_not_empty list_all_iff)
  show "integer_token_value (to_string v) = v"
    by (simp add: integer_token_value_def sp dec_value_dec_digits)
qed

lemma spec_delimited_integers_join_ws:
  assumes "well_spaced items" "\<forall>c \<in> set trail. isspace c"
  shows "spec_delimited_integers (join_ws items @ trail) = map snd items"
proof -
  have "filter is_integer_token (map (\<lambda>(sp, v). to_string v) items) =
        map (\<lambda>(sp, v). to_string v) items"
    by (induction items) (auto simp: integer_token_to_string)
  moreover have "map integer_token_value (map (\<lambda>(sp, v). to_string v) items) = map snd items"
    by (induction items) (auto simp: integer_token_to_string)
  ultimately show ?thesis
    by (simp add: spec_delimited_integers_def read_words_join_ws [OF assms])
qed

lemma garbled_facts:
  "running_as_root garbled_freqs_world"
  "get_soc_family garbled_freqs_world = Inr ''tegra186''"
  "read_file ''/sys/devices/17000000.gp10b/devfreq/17000000.gp10b/available_frequencies''
     garbled_freqs_world = ''500 0x10 7''"
  "read_file (''/sys/devices/system/cpu/cpu'' @ to_string 0 @
              ''/cpufreq/scaling_available_frequencies'') garbled_freqs_world = ''200 MHz 100''"
  "sort (spec_delimited_integers ''500 0x10 7'') = [7, 500]"
  "get_gpu_available_freqs garbled_freqs_world = Inr [0, 500]"
  "sort (spec_delimited_integers ''200 MHz 100'') = [100, 200]"
  "get_cpu_available_freqs 0 garbled_freqs_world = Inr [200]"
  by code_simp+

text \<open>
  C7, as the claim states it, fails: it speaks of every content of the file, and the
  getter returns the integers of the content only when the content holds nothing else.
  \<^verbatim>\<open>iss >> s\<close> stops for good at the first place where it cannot read an integer.  From
  \<^verbatim>\<open>500 0x10 7\<close>, whose integers are 500 and 7, the GPU getter returns 0 and 500: it
  reads the 0 of \<^verbatim>\<open>0x10\<close>, stops at the \<^verbatim>\<open>x\<close> and never reaches the 7.  From
  \<^verbatim>\<open>200 MHz 100\<close> the per-CPU getter returns 200 alone.
\<close>

theorem available_freqs_not_all_integers:
  "running_as_root garbled_freqs_world \<and>
   get_soc_family garbled_freqs_world = Inr ''tegra186'' \<and>
   read_file ''/sys/devices/17000000.gp10b/devfreq/17000000.gp10b/available_frequencies''
     garbled_freqs_world = ''500 0x10 7'' \<and>
   sort (spec_delimited_integers ''500 0x10 7'') = [7, 500] \<and>
   get_gpu_available_freqs garbled_freqs_world = Inr [0, 500] \<and>
   get_gpu_available_freqs garbled_freqs_world \<noteq>
     Inr (sort (spec_delimited_integers ''500 0x10 7'')) \<and>
   read_file (''/sys/devices/system/cpu/cpu'' @ to_string 0 @
              ''/cpufreq/scaling_available_frequencies'') garbled_freqs_world = ''200 MHz 100'' \<and>
   sort (spec_delimited_integers ''200 MHz 100'') = [100, 200] \<and>
   get_cpu_available_freqs 0 garbled_freqs_world = Inr [200] \<and>
   get_cpu_available_freqs 0 garbled_freqs_world \<noteq>
     Inr (sort (spec_delimited_integers ''200 MHz 100''))"
  using garbled_facts by simp

text \<open>
  C7, amended.  For root on a supported family, whatever the GPU available-frequencies
  file holds, the getter returns, sorted in ascending order, the integers that
  \<^verbatim>\<open>iss >> s\<close> reads from the start of the content up to the first place where it
  cannot read an integer that fits a \<^verbatim>\<open>long int\<close>.  When the content is nothing but
  decimal integers that fit 64 bits, separated by white space, these are all the
  white-space delimited integers of the content.  Every list the getter returns is
  sorted.  The same holds for the per-CPU getter and its file, which has to exist.
\<close>

theorem available_freqs_sorted:
  "(running_as_root w \<and> get_soc_family w = Inr fam \<and>
    gpu_available_freqs_path fam = Some p \<longrightarrow>
      get_gpu_available_freqs w = Inr (sort (read_longs (read_file p w))) \<and>
      (well_spaced items \<and> (\<forall>c \<in> set trail. isspace c) \<and>
       read_file p w = join_ws items @ trail \<longrightarrow>
         get_gpu_available_freqs w = Inr (sort (map snd items)) \<and>
         get_gpu_available_freqs w = Inr (sort (spec_delimited_integers (read_file p w))))) \<and>
   (get_gpu_available_freqs w = Inr freqs \<longrightarrow> sorted freqs) \<and>
   (running_as_root w \<and>
    file_exists (''/sys/devices/system/cpu/cpu'' @ to_string cpu_id @
                 ''/cpufreq/scaling_available_frequencies'') w \<longrightarrow>
      get_cpu_available_freqs cpu_id w =
        Inr (sort (read_longs (read_file (''/sys/devices/system/cpu/cpu'' @ to_string cpu_id @
                 ''/cpufreq/scaling_available_frequencies'') w))) \<and>
      (well_spaced cpu_items \<and> (\<forall>c \<in> set cpu_trail. isspace c) \<and>
       read_file (''/sys/devices/system/cpu/cpu'' @ to_string cpu_id @
                  ''/cpufreq/scaling_available_frequencies'') w =
         join_ws cpu_items @ cpu_trail \<longrightarrow>
         get_cpu_available_freqs cpu_id w = Inr (sort (map snd cpu_items)) \<and>
         get_cpu_available_freqs cpu_id w =
           Inr (sort (spec_delimited_integers
             (read_file (''/sys/devices/system/cpu/cpu'' @ to_string cpu_id @
                         ''/cpufreq/scaling_available_frequencies'') w))))) \<and>
   (get_cpu_available_freqs cpu_id w = Inr cpu_freqs \<longrightarrow> sorted cpu_freqs)"
proof -
  have "get_gpu_available_freqs w = Inr freqs \<longrightarrow> sorted freqs"
    by (auto simp: get_gpu_available_freqs_def split: if_splits sum.splits option.splits)
  moreover have "get_cpu_available_freqs cpu_id w = Inr cpu_freqs \<longrightarrow> sorted cpu_freqs"
    by (auto simp: get_cpu_available_freqs_def Let_def split: if_splits)
  ultimately show ?thesis
    by (simp add: get_gpu_available_freqs_def get_cpu_available_freqs_def read_longs_join_ws
        spec_delimited_integers_join_ws)
qed

theorem available_freqs_sorted_witness:
  "running_as_root tx2_world \<and> get_soc_family tx2_world = Inr ''tegra186'' \<and>
   gpu_available_freqs_path ''tegra186'' =
     Some ''/sys/devices/17000000.gp10b/devfreq/17000000.gp10b/available_frequencies'' \<and>
   read_file ''/sys/devices/17000000.gp10b/devfreq/17000000.gp10b/available_frequencies''
     tx2_world = ''100 900 500'' \<and>
   join_ws [([], 100), ('' '', 900), ('' '', 500)] = ''100 900 500'' \<and>
   get_gpu_available_freqs tx2_world = Inr [100, 500, 900] \<and>
   sorted [100, 500, 900 :: int] \<and>
   get_gpu_available_freqs tx2_world = Inr (sort (spec_delimited_integers ''100 900 500'')) \<and>
   get_cpu_available_freqs 0 tx2_world = Inr [100, 200]"
proof -
  have j: "join_ws [([], 100), ('' '', 900), ('' '', 500)] = ''100 900 500''"
    by code_simp
  have p: "gpu_available_freqs_path ''tegra186'' =
     Some ''/sys/devices/17000000.gp10b/devfreq/17000000.gp10b/available_frequencies''"
    by (simp add: gpu_available_freqs_path_def)
  have s: "sort (map snd [([], 100), ('' '', 900), ('' '', 500 :: int)]) = [100, 500, 900]"
    "sort (map snd [([], 100), ('' '', 200 :: int)]) = [100, 200]"
    by simp_all
  have r: "sort (read_longs ''100 900 500'') = [100, 500, 900]"
    "sort (read_longs (join_ws [([], 100), ('' '', 200)])) = [100, 200]"
    "sort (spec_delimited_integers ''100 900 500'') = [100, 500, 900]"
    "sort (spec_delimited_integers (join_ws [([], 100), ('' '', 200)])) = [100, 200]"
    by code_simp+
  show ?thesis
    using available_freqs_sorted [of tx2_world "''tegra186''"
        "''/sys/devices/17000000.gp10b/devfreq/17000000.gp10b/available_frequencies''"
        "[([], 100), ('' '', 900), ('' '', 500)]" "[]" "[100, 500, 900]" 0
        "[([], 100), ('' '', 200)]" "[]" "[100, 200]"]
      tx2_root tx2_family p tx2_gpu_file example_well_spaced tx2_reads(5) s
    by (simp del: join_ws.simps add: j r)
qed

subsection \<open>Listing the subdirectories\<close>

lemma fstatat_directory: "(fstatat n = Some S_IFDIR) = resolves_to_directory n"
  by (induction n) simp_all

lemma readdir_loop_filter:
  "readdir_loop entries dirs = dirs @ map fst (filter listed_child entries)"
proof (induction entries arbitrary: dirs)
  case Nil
  then show ?case by simp
next
  case (Cons entry entries)
  obtain d_name n where entry: "entry = (d_name, n)" by (cases entry)
  show ?case
  proof (cases "fstatat n")
    case None
    then have "\<not> resolves_to_directory n"
      using fstatat_directory [of n] by simp
    with None Cons.IH entry show ?thesis by (simp add: listed_child_def)
  next
    case (Some st)
    then have "(st = S_IFDIR) = resolves_to_directory n"
      using fstatat_directory [of n] by simp
    with Some Cons.IH entry show ?thesis by (simp add: listed_child_def)
  qed
qed

text \<open>
  C8, as the claim states it, fails: \<^verbatim>\<open>fstatat\<close> is called with flags 0 and follows
  symbolic links, so a symbolic link to a directory is listed.
\<close>

theorem list_subdirs_lists_symlink:
  "dir_entries cpu_dir_world ''/sys/devices/system/cpu/'' = Some cpu_dir_listing \<and>
   map_of cpu_dir_listing ''link_to_dir'' = Some (SymlinkTo Directory) \<and>
   list_subdirs ''/sys/devices/system/cpu/'' cpu_dir_world =
     [''cpu1'', ''cpu0'', ''link_to_dir'']"
  by (simp add: list_subdirs_def cpu_dir_world_def cpu_dir_listing_def)

text \<open>
  C8, amended.  \<^verbatim>\<open>list_subdirs(path)\<close> returns, in the order of the directory, the
  names of the immediate children of \<^verbatim>\<open>path\<close> that are directories or symbolic links
  that lead to a directory, without the entries \<^verbatim>\<open>.\<close> and \<^verbatim>\<open>..\<close>; plain files,
  symbolic links to plain files and dangling symbolic links are left out.  When the path
  cannot be opened as a directory the result is empty.
\<close>

theorem list_subdirs_children:
  "(dir_entries w path = None \<longrightarrow> list_subdirs path w = []) \<and>
   (dir_entries w path = Some entries \<longrightarrow>
      list_subdirs path w = map fst (filter listed_child entries) \<and>
      (\<forall>name \<in> set (list_subdirs path w).
         name \<noteq> ''.'' \<and> name \<noteq> ''..'' \<and> (\<exists>n. (name, n) \<in> set entries \<and> resolves_to_directory n)) \<and>
      (\<forall>(name, n) \<in> set entries.
         name \<noteq> ''.'' \<and> name \<noteq> ''..'' \<and> resolves_to_directory n \<longrightarrow>
           name \<in> set (list_subdirs path w)))"
proof -
  have "dir_entries w path = Some entries \<Longrightarrow>
        list_subdirs path w = map fst (filter listed_child entries)"
    by (simp add: list_subdirs_def readdir_loop_filter)
  moreover have "\<forall>name \<in> set (map fst (filter listed_child entries)).
      name \<noteq> ''.'' \<and> name \<noteq> ''..'' \<and> (\<exists>n. (name, n) \<in> set entries \<and> resolves_to_directory n)"
    by (auto simp: listed_child_def)
  moreover have "\<forall>(name, n) \<in> set entries.
      name \<noteq> ''.'' \<and> name \<noteq> ''..'' \<and> resolves_to_directory n \<longrightarrow>
        name \<in> set (map fst (filter listed_child entries))"
    by (force simp: listed_child_def)
  ultimately show ?thesis
    by (simp add: list_subdirs_def)
qed

theorem list_subdirs_children_witness:
  "dir_entries cpu_dir_world ''/nowhere'' = None \<and>
   list_subdirs ''/nowhere'' cpu_dir_world = [] \<and>
   dir_entries cpu_dir_world ''/sys/devices/system/cpu/'' = Some cpu_dir_listing \<and>
   list_subdirs ''/sys/devices/system/cpu/'' cpu_dir_world =
     [''cpu1'', ''cpu0'', ''link_to_dir'']"
  using list_subdirs_children [of cpu_dir_world "''/nowhere''"]
    list_subdirs_children [of cpu_dir_world "''/sys/devices/system/cpu/''" cpu_dir_listing]
  by (simp add: cpu_dir_world_def cpu_dir_listing_def listed_child_def)

subsection \<open>The write results that are dropped\<close>

lemma open_file_print_error [simp]: "open_file name (print_error e w) = open_file name w"
  by (simp add: open_file_def)

lemma get_soc_family_b_print_error [simp]:
  "get_soc_family_b (print_error e w) = get_soc_family_b w"
  by (simp add: get_soc_family_b_def file_exists_def read_file_def)

lemma emc_range_b_family:
  "get_soc_family_b (snd (get_emc_available_freq_range_b w)) = get_soc_family_b w"
  by (simp add: get_emc_available_freq_range_b_def split: option.splits sum.splits prod.splits)

lemma accept_emc_b:
  assumes "running_as_root w" "get_emc_available_freq_range_b w = (Inr (lo, hi), w0)"
    "lo \<le> freq" "freq \<le> hi"
    "get_soc_family_b w = ''tegra186'' \<or> get_soc_family_b w = ''tegra210''"
  shows "fst (set_emc_freq_b freq w) = Inr True"
proof -
  have "get_soc_family_b w0 = get_soc_family_b w"
    using emc_range_b_family [of w] assms(2) by simp
  with assms show ?thesis
    by (auto simp: set_emc_freq_b_def emc_freq_paths_b_def split_def Let_def)
qed

lemma accept_cpu_min_b:
  assumes "running_as_root w"
    "file_writable (''/sys/devices/system/cpu/cpu'' @ to_string cpu_id @
                    ''/cpufreq/scaling_min_freq'') w"
    "get_cpu_available_freqs_b cpu_id w = (avail, w0)" "f \<in> set avail"
  shows "fst (set_cpu_min_freq_b cpu_id f w) = True"
  using assms by (auto simp: set_cpu_min_freq_b_def split_def Let_def)

lemma accept_cpu_max_b:
  assumes "running_as_root w"
    "file_writable (''/sys/devices/system/cpu/cpu'' @ to_string cpu_id @
                    ''/cpufreq/scaling_max_freq'') w"
    "get_cpu_available_freqs_b cpu_id w = (avail, w0)" "f \<in> set avail"
  shows "fst (set_cpu_max_freq_b cpu_id f w) = True"
  using assms by (auto simp: set_cpu_max_freq_b_def split_def Let_def)

lemma accept_cpu_governor_b:
  assumes "running_as_root w"
    "file_exists (''/sys/devices/system/cpu/cpu'' @ to_string cpu_id @
                  ''/cpufreq/scaling_governor'') w"
    "get_cpu_available_governors_b cpu_id w = (avail, w0)" "g \<in> set avail"
  shows "fst (set_cpu_governor_b cpu_id g w) = True"
  using assms by (auto simp: set_cpu_governor_b_def split_def Let_def)

lemma bare_emc_b:
  "fst (get_emc_available_freq_range_b bare_root_world) = Inr (0, 0)"
  "fst (set_emc_freq_b 0 bare_root_world) = Inr False"
  by code_simp+

lemma tx2_failed_writes:
  "fst (write_file ''/sys/kernel/debug/bpmp/debug/clk/emc/rate'' (to_string 200) tx2_world) =
     False"
  "fst (write_file ''/sys/module/qos/parameters/enable'' ''0'' tx2_world) = False"
  by code_simp+

text \<open>
  C9, as the claim states it, fails: passing the privilege and value tests is not enough.
  For root on a machine without identification files the range getter returns
  \<open>(0, 0)\<close>, the frequency 0 passes the range test, and \<^verbatim>\<open>set_emc_freq\<close> then takes
  its unsupported-family branch and returns \<^verbatim>\<open>false\<close>.
\<close>

theorem set_emc_freq_b_false_after_validation:
  "running_as_root bare_root_world \<and>
   fst (get_emc_available_freq_range_b bare_root_world) = Inr (0, 0) \<and>
   \<not> ((0 :: int) < 0 \<or> (0 :: int) > 0) \<and>
   fst (set_emc_freq_b 0 bare_root_world) = Inr False"
  by (simp add: bare_root bare_emc_b)

text \<open>
  C9, amended.  In the boolean edition \<^verbatim>\<open>set_emc_freq\<close>, \<^verbatim>\<open>set_cpu_min_freq\<close>,
  \<^verbatim>\<open>set_cpu_max_freq\<close> and \<^verbatim>\<open>set_cpu_governor\<close> return \<^verbatim>\<open>true\<close> whenever all the
  tests they make before writing pass: the privilege test, the value test, and also the
  family dispatch of \<^verbatim>\<open>set_emc_freq\<close> and the test of the target file in the per-CPU
  setters (writable for the frequencies, existing for the governor).  This holds on
  every machine, so whatever the writes that follow return; the accumulated flag is not
  returned.
\<close>

theorem setters_b_return_true:
  assumes "running_as_root w"
  shows
    "(get_emc_available_freq_range_b w = (Inr (lo, hi), we) \<and> lo \<le> freq \<and> freq \<le> hi \<and>
      (get_soc_family_b w = ''tegra186'' \<or> get_soc_family_b w = ''tegra210'') \<longrightarrow>
        fst (set_emc_freq_b freq w) = Inr True) \<and>
     (get_cpu_available_freqs_b cpu_id w = (avail, wc) \<and> f \<in> set avail \<longrightarrow>
        (file_writable (''/sys/devices/system/cpu/cpu'' @ to_string cpu_id @
                        ''/cpufreq/scaling_min_freq'') w \<longrightarrow>
           fst (set_cpu_min_freq_b cpu_id f w) = True) \<and>
        (file_writable (''/sys/devices/system/cpu/cpu'' @ to_string cpu_id @
                        ''/cpufreq/scaling_max_freq'') w \<longrightarrow>
           fst (set_cpu_max_freq_b cpu_id f w) = True)) \<and>
     (get_cpu_available_governors_b cpu_id w = (govs, wv) \<and> g \<in> set govs \<and>
      file_exists (''/sys/devices/system/cpu/cpu'' @ to_string cpu_id @
                   ''/cpufreq/scaling_governor'') w \<longrightarrow>
        fst (set_cpu_governor_b cpu_id g w) = True)"
  using accept_emc_b [OF assms] accept_cpu_min_b [OF assms] accept_cpu_max_b [OF assms]
    accept_cpu_governor_b [OF assms]
  by blast

theorem setters_b_return_true_witness:
  "running_as_root tx2_world \<and>
   get_emc_available_freq_range_b tx2_world = (Inr (100, 300), tx2_world) \<and>
   get_soc_family_b tx2_world = ''tegra186'' \<and>
   fst (write_file ''/sys/kernel/debug/bpmp/debug/clk/emc/rate'' (to_string 200) tx2_world) =
     False \<and>
   fst (set_emc_freq_b 200 tx2_world) = Inr True \<and>
   get_cpu_available_freqs_b 0 tx2_world = ([100, 200], tx2_world) \<and>
   fst (write_file ''/sys/module/qos/parameters/enable'' ''0'' tx2_world) = False \<and>
   fst (set_cpu_min_freq_b 0 100 tx2_world) = True \<and>
   fst (set_cpu_max_freq_b 0 100 tx2_world) = True \<and>
   get_cpu_available_governors_b 0 tx2_world =
     ([''interactive'', ''performance''], tx2_world) \<and>
   \<not> file_writable (''/sys/devices/system/cpu/cpu'' @ to_string 0 @
                     ''/cpufreq/scaling_governor'') tx2_world \<and>
   fst (set_cpu_governor_b 0 ''performance'' tx2_world) = True"
  using setters_b_return_true [OF tx2_root, where lo = 100 and hi = 300 and we = tx2_world and
      freq = 200 and cpu_id = 0 and avail = "[100, 200]" and wc = tx2_world and f = 100 and
      govs = "[''interactive'', ''performance'']" and wv = tx2_world and g = "''performance''"]
    tx2_root tx2_getters_b tx2_family_b tx2_targets tx2_failed_writes
  by simp

subsection \<open>A family file that ends with a line feed\<close>

lemma newline_not_family:
  assumes "fam \<noteq> []" "last fam = CHR 0x0A"
  shows "fam \<noteq> ''tegra186'' \<and> fam \<noteq> ''tegra210'' \<and> fam \<noteq> ''tegra194'' \<and>
         fam \<noteq> ''tagra194''"
  using assms by auto

lemma newline_unresolved:
  assumes "fam \<noteq> []" "last fam = CHR 0x0A"
  shows "gpu_available_freqs_path fam = None" "gpu_freq_range_paths fam = None"
    "gpu_cur_freq_path fam = None" "gpu_min_freq_path fam = None"
    "gpu_max_freq_path fam = None" "gpu_usage_path fam = None"
    "emc_available_freqs_paths fam w = Inl UnsupportedPlatform"
    "get_emc_freq_paths fam = None" "set_emc_freq_paths fam = None"
    "gpu_available_freqs_path_b fam = None" "gpu_freq_range_paths_b fam = None"
    "emc_available_freq_range_paths_b fam w = Inr None" "emc_freq_paths_b fam = None"
  using newline_not_family [OF assms]
  by (simp_all add: gpu_available_freqs_path_def gpu_freq_range_paths_def
      gpu_cur_freq_path_def gpu_min_freq_path_def gpu_max_freq_path_def gpu_usage_path_def
      emc_available_freqs_paths_def get_emc_freq_paths_def set_emc_freq_paths_def
      gpu_available_freqs_path_b_def gpu_freq_range_paths_b_def
      emc_available_freq_range_paths_b_def emc_freq_paths_b_def)

lemma newline_facts:
  "running_as_root newline_world"
  "file_exists ''/sys/devices/soc0/family'' newline_world"
  "read_file ''/sys/devices/soc0/family'' newline_world = ''tegra186'' @ [CHR 0x0A]"
  by code_simp+

lemma family_file_unsupported:
  assumes "file_exists ''/sys/devices/soc0/family'' w"
  shows
    "get_soc_family w = Inr (read_file ''/sys/devices/soc0/family'' w) \<and>
     get_soc_family_b w = read_file ''/sys/devices/soc0/family'' w \<and>
     (read_file ''/sys/devices/soc0/family'' w \<noteq> [] \<and>
      last (read_file ''/sys/devices/soc0/family'' w) = CHR 0x0A \<longrightarrow>
        get_gpu_current_usage w = Inl UnsupportedPlatform \<and>
        (running_as_root w \<longrightarrow>
           get_gpu_available_freqs w = Inl UnsupportedPlatform \<and>
           set_gpu_freq_range min_freq max_freq w = (Inl UnsupportedPlatform, w) \<and>
           get_gpu_cur_freq w = Inl UnsupportedPlatform \<and>
           get_gpu_min_freq w = Inl UnsupportedPlatform \<and>
           get_gpu_max_freq w = Inl UnsupportedPlatform \<and>
           get_emc_available_freqs w = Inl UnsupportedPlatform \<and>
           get_emc_freq w = Inl UnsupportedPlatform \<and>
           set_emc_freq freq w = (Inl UnsupportedPlatform, w) \<and>
           get_gpu_available_freqs_b w = ([], print_error UnsupportedPlatform w) \<and>
           get_emc_available_freq_range_b w =
             (Inr (0, 0), print_error UnsupportedPlatform w) \<and>
           get_emc_freq_b w = (Inr 0, print_error UnsupportedPlatform w) \<and>
           set_gpu_freq_range_b min_freq max_freq w =
             (False, print_error ValueNotAvailable (print_error UnsupportedPlatform w)) \<and>
           set_emc_freq_b freq w =
             (Inr False,
              print_error (if freq = 0 then UnsupportedPlatform else ValueNotAvailable)
                (print_error UnsupportedPlatform w))))"
proof -
  have fam: "get_soc_family w = Inr (read_file ''/sys/devices/soc0/family'' w)"
    "get_soc_family_b w = read_file ''/sys/devices/soc0/family'' w"
    using assms by (simp_all add: get_soc_family_def get_soc_family_b_def)
  show ?thesis
  proof (intro conjI impI)
    assume "read_file ''/sys/devices/soc0/family'' w \<noteq> [] \<and>
      last (read_file ''/sys/devices/soc0/family'' w) = CHR 0x0A"
    then have nl: "read_file ''/sys/devices/soc0/family'' w \<noteq> []"
      "last (read_file ''/sys/devices/soc0/family'' w) = CHR 0x0A"
      by simp_all
    note un = newline_unresolved [OF nl]
    show "get_gpu_current_usage w = Inl UnsupportedPlatform"
      by (simp add: get_gpu_current_usage_def fam un)
    assume root: "running_as_root w"
    show "get_gpu_available_freqs w = Inl UnsupportedPlatform"
      by (simp add: get_gpu_available_freqs_def fam un root)
    then show "set_gpu_freq_range min_freq max_freq w = (Inl UnsupportedPlatform, w)"
      by (simp add: set_gpu_freq_range_def root)
    show "get_gpu_cur_freq w = Inl UnsupportedPlatform"
      by (simp add: get_gpu_cur_freq_def fam un root)
    show "get_gpu_min_freq w = Inl UnsupportedPlatform"
      by (simp add: get_gpu_min_freq_def fam un root)
    show "get_gpu_max_freq w = Inl UnsupportedPlatform"
      by (simp add: get_gpu_max_freq_def fam un root)
    show "get_emc_available_freqs w = Inl UnsupportedPlatform"
      by (simp add: get_emc_available_freqs_def fam un root)
    then show "set_emc_freq freq w = (Inl UnsupportedPlatform, w)"
      by (simp add: set_emc_freq_def root)
    show "get_emc_freq w = Inl UnsupportedPlatform"
      by (simp add: get_emc_freq_def fam un root)
    show gb: "get_gpu_available_freqs_b w = ([], print_error UnsupportedPlatform w)"
      by (simp add: get_gpu_available_freqs_b_def fam un root)
    show eb: "get_emc_available_freq_range_b w =
        (Inr (0, 0), print_error UnsupportedPlatform w)"
      by (simp add: get_emc_available_freq_range_b_def fam un root)
    show "get_emc_freq_b w = (Inr 0, print_error UnsupportedPlatform w)"
      by (simp add: get_emc_freq_b_def fam un root)
    show "set_gpu_freq_range_b min_freq max_freq w =
        (False, print_error ValueNotAvailable (print_error UnsupportedPlatform w))"
      by (simp add: set_gpu_freq_range_b_def gb root)
    show "set_emc_freq_b freq w =
        (Inr False,
         print_error (if freq = 0 then UnsupportedPlatform else ValueNotAvailable)
           (print_error UnsupportedPlatform w))"
      by (auto simp: set_emc_freq_b_def eb root fam un)
  qed (rule fam)+
qed

lemma cpu_world_newline:
  "file_exists ''/sys/devices/soc0/family'' (cpu_world (''tegra186'' @ [CHR 0x0A]))"
  "running_as_root (cpu_world (''tegra186'' @ [CHR 0x0A]))"
  "get_soc_family (cpu_world (''tegra186'' @ [CHR 0x0A])) = Inr (''tegra186'' @ [CHR 0x0A])"
  "fst (set_cpu_min_freq 0 100 (cpu_world (''tegra186'' @ [CHR 0x0A]))) = Inr ()"
  "map_option content (files (snd (set_cpu_min_freq 0 100
      (cpu_world (''tegra186'' @ [CHR 0x0A]))))
      ''/sys/devices/system/cpu/cpu0/cpufreq/scaling_min_freq'') = Some ''100''"
  "map_option content (files (snd (set_cpu_min_freq 0 100
      (cpu_world (''tegra186'' @ [CHR 0x0A]))))
      ''/sys/kernel/debug/tegra_cpufreq/M_CLUSTER/cc3/enable'') = Some ''1''"
  "fst (set_cpu_min_freq_b 0 100 (cpu_world (''tegra186'' @ [CHR 0x0A]))) = True"
  "cout (snd (set_cpu_min_freq_b 0 100 (cpu_world (''tegra186'' @ [CHR 0x0A])))) = []"
  "fst (set_gpu_freq_range_b 100 900 (cpu_world (''tegra186'' @ [CHR 0x0A]))) = False"
  "cout (snd (set_gpu_freq_range_b 100 900 (cpu_world (''tegra186'' @ [CHR 0x0A])))) =
     [UnsupportedPlatform, ValueNotAvailable]"
  "map_option content (files (snd (set_cpu_min_freq 0 100 (cpu_world ''tegra186'')))
      ''/sys/kernel/debug/tegra_cpufreq/M_CLUSTER/cc3/enable'') = Some ''0''"
  by code_simp+

lemma open_file_write_other:
  "name \<noteq> n \<Longrightarrow> open_file name (snd (write_file n s w)) = open_file name w"
  by (simp add: write_file_def open_file_def split: option.splits)

lemma files_write_other:
  "name \<noteq> n \<Longrightarrow> files (snd (write_file n s w)) name = files w name"
  by (simp add: write_file_def split: option.splits)

lemma running_as_root_write [simp]:
  "running_as_root (snd (write_file n s w)) = running_as_root w"
  by (simp add: write_file_def running_as_root_def split: option.splits)

lemma get_soc_family_write_other:
  assumes "n \<noteq> ''/sys/devices/soc0/family''" "n \<noteq> ''/proc/device-tree/compatible''"
  shows "get_soc_family (snd (write_file n s w)) = get_soc_family w"
    and "get_soc_family_b (snd (write_file n s w)) = get_soc_family_b w"
  using assms
  by (simp_all add: get_soc_family_def get_soc_family_b_def file_exists_def read_file_def
      open_file_write_other)

lemma cpu_freqs_getter_b_of_getter:
  assumes "get_cpu_available_freqs cpu_id w = Inr avail" "avail \<noteq> []"
  shows "get_cpu_available_freqs_b cpu_id w = (avail, w)"
  using assms
  by (auto simp: get_cpu_available_freqs_def get_cpu_available_freqs_b_def Let_def
      split: if_splits)

lemma cpu_govs_getter_b_of_getter:
  assumes "get_cpu_available_governors cpu_id w = Inr avail"
  shows "get_cpu_available_governors_b cpu_id w = (avail, w)"
  using assms
  by (auto simp: get_cpu_available_governors_def get_cpu_available_governors_b_def Let_def
      split: if_splits)

lemma newline_cpu_min:
  assumes fam: "get_soc_family w = Inr fam" "get_soc_family_b w = fam" "fam \<noteq> ''tegra186''"
    and root: "running_as_root w"
    and ok: "file_writable (''/sys/devices/system/cpu/cpu'' @ to_string cpu_id @
                    ''/cpufreq/scaling_min_freq'') w"
      "get_cpu_available_freqs cpu_id w = Inr avail" "f \<in> set avail"
  shows "set_cpu_min_freq cpu_id f w =
           (Inr (), snd (write_file (''/sys/devices/system/cpu/cpu'' @ to_string cpu_id @
                    ''/cpufreq/scaling_min_freq'') (to_string f)
                 (snd (write_file ''/sys/module/qos/parameters/enable'' ''0'' w))))"
    and "set_cpu_min_freq_b cpu_id f w =
           (True, snd (write_file (''/sys/devices/system/cpu/cpu'' @ to_string cpu_id @
                    ''/cpufreq/scaling_min_freq'') (to_string f)
                 (snd (write_file ''/sys/module/qos/parameters/enable'' ''0'' w))))"
    and "files (snd (set_cpu_min_freq cpu_id f w))
           ''/sys/kernel/debug/tegra_cpufreq/M_CLUSTER/cc3/enable'' =
         files w ''/sys/kernel/debug/tegra_cpufreq/M_CLUSTER/cc3/enable''"
    and "files (snd (set_cpu_min_freq cpu_id f w))
           ''/sys/kernel/debug/tegra_cpufreq/B_CLUSTER/cc3/enable'' =
         files w ''/sys/kernel/debug/tegra_cpufreq/B_CLUSTER/cc3/enable''"
proof -
  have ne: "avail \<noteq> []" using ok(3) by auto
  note gb = cpu_freqs_getter_b_of_getter [OF ok(2) ne]
  show e: "set_cpu_min_freq cpu_id f w =
           (Inr (), snd (write_file (''/sys/devices/system/cpu/cpu'' @ to_string cpu_id @
                    ''/cpufreq/scaling_min_freq'') (to_string f)
                 (snd (write_file ''/sys/module/qos/parameters/enable'' ''0'' w))))"
    using fam root ok
    by (simp add: set_cpu_min_freq_def get_soc_family_write_other)
  show "set_cpu_min_freq_b cpu_id f w =
           (True, snd (write_file (''/sys/devices/system/cpu/cpu'' @ to_string cpu_id @
                    ''/cpufreq/scaling_min_freq'') (to_string f)
                 (snd (write_file ''/sys/module/qos/parameters/enable'' ''0'' w))))"
    using fam root ok ne
    by (simp add: set_cpu_min_freq_b_def gb get_soc_family_write_other split_def)
  show "files (snd (set_cpu_min_freq cpu_id f w))
           ''/sys/kernel/debug/tegra_cpufreq/M_CLUSTER/cc3/enable'' =
         files w ''/sys/kernel/debug/tegra_cpufreq/M_CLUSTER/cc3/enable''"
    by (simp add: e files_write_other)
  show "files (snd (set_cpu_min_freq cpu_id f w))
           ''/sys/kernel/debug/tegra_cpufreq/B_CLUSTER/cc3/enable'' =
         files w ''/sys/kernel/debug/tegra_cpufreq/B_CLUSTER/cc3/enable''"
    by (simp add: e files_write_other)
qed

lemma newline_cpu_max:
  assumes fam: "get_soc_family w = Inr fam" "get_soc_family_b w = fam" "fam \<noteq> ''tegra186''"
    and root: "running_as_root w"
    and ok: "file_writable (''/sys/devices/system/cpu/cpu'' @ to_string cpu_id @
                    ''/cpufreq/scaling_max_freq'') w"
      "get_cpu_available_freqs cpu_id w = Inr avail" "f \<in> set avail"
  shows "set_cpu_max_freq cpu_id f w =
           (Inr (), snd (write_file (''/sys/devices/system/cpu/cpu'' @ to_string cpu_id @
                    ''/cpufreq/scaling_max_freq'') (to_string f)
                 (snd (write_file ''/sys/module/qos/parameters/enable'' ''0'' w))))"
    and "set_cpu_max_freq_b cpu_id f w =
           (True, snd (write_file (''/sys/devices/system/cpu/cpu'' @ to_string cpu_id @
                    ''/cpufreq/scaling_max_freq'') (to_string f)
                 (snd (write_file ''/sys/module/qos/parameters/enable'' ''0'' w))))"
    and "files (snd (set_cpu_max_freq cpu_id f w))
           ''/sys/kernel/debug/tegra_cpufreq/M_CLUSTER/cc3/enable'' =
         files w ''/sys/kernel/debug/tegra_cpufreq/M_CLUSTER/cc3/enable''"
    and "files (snd (set_cpu_max_freq cpu_id f w))
           ''/sys/kernel/debug/tegra_cpufreq/B_CLUSTER/cc3/enable'' =
         files w ''/sys/kernel/debug/tegra_cpufreq/B_CLUSTER/cc3/enable''"
proof -
  have ne: "avail \<noteq> []" using ok(3) by auto
  note gb = cpu_freqs_getter_b_of_getter [OF ok(2) ne]
  show e: "set_cpu_max_freq cpu_id f w =
           (Inr (), snd (write_file (''/sys/devices/system/cpu/cpu'' @ to_string cpu_id @
                    ''/cpufreq/scaling_max_freq'') (to_string f)
                 (snd (write_file ''/sys/module/qos/parameters/enable'' ''0'' w))))"
    using fam root ok
    by (simp add: set_cpu_max_freq_def get_soc_family_write_other)
  show "set_cpu_max_freq_b cpu_id f w =
           (True, snd (write_file (''/sys/devices/system/cpu/cpu'' @ to_string cpu_id @
                    ''/cpufreq/scaling_max_freq'') (to_string f)
                 (snd (write_file ''/sys/module/qos/parameters/enable'' ''0'' w))))"
    using fam root ok ne
    by (simp add: set_cpu_max_freq_b_def gb get_soc_family_write_other split_def)
  show "files (snd (set_cpu_max_freq cpu_id f w))
           ''/sys/kernel/debug/tegra_cpufreq/M_CLUSTER/cc3/enable'' =
         files w ''/sys/kernel/debug/tegra_cpufreq/M_CLUSTER/cc3/enable''"
    by (simp add: e files_write_other)
  show "files (snd (set_cpu_max_freq cpu_id f w))
           ''/sys/kernel/debug/tegra_cpufreq/B_CLUSTER/cc3/enable'' =
         files w ''/sys/kernel/debug/tegra_cpufreq/B_CLUSTER/cc3/enable''"
    by (simp add: e files_write_other)
qed

lemma newline_cpu_governor:
  assumes fam: "get_soc_family w = Inr fam" "get_soc_family_b w = fam" "fam \<noteq> ''tegra186''"
    and root: "running_as_root w"
    and ok: "file_exists (''/sys/devices/system/cpu/cpu'' @ to_string cpu_id @
                    ''/cpufreq/scaling_governor'') w"
      "get_cpu_available_governors cpu_id w = Inr avail" "f \<in> set avail"
  shows "set_cpu_governor cpu_id f w =
           (Inr (), snd (write_file (''/sys/devices/system/cpu/cpu'' @ to_string cpu_id @
                    ''/cpufreq/scaling_governor'') f
                 (snd (write_file ''/sys/module/qos/parameters/enable'' ''0'' w))))"
    and "set_cpu_governor_b cpu_id f w =
           (True, snd (write_file (''/sys/devices/system/cpu/cpu'' @ to_string cpu_id @
                    ''/cpufreq/scaling_governor'') f
                 (snd (write_file ''/sys/module/qos/parameters/enable'' ''0'' w))))"
    and "files (snd (set_cpu_governor cpu_id f w))
           ''/sys/kernel/debug/tegra_cpufreq/M_CLUSTER/cc3/enable'' =
         files w ''/sys/kernel/debug/tegra_cpufreq/M_CLUSTER/cc3/enable''"
    and "files (snd (set_cpu_governor cpu_id f w))
           ''/sys/kernel/debug/tegra_cpufreq/B_CLUSTER/cc3/enable'' =
         files w ''/sys/kernel/debug/tegra_cpufreq/B_CLUSTER/cc3/enable''"
proof -
  have ne: "avail \<noteq> []" using ok(3) by auto
  note gb = cpu_govs_getter_b_of_getter [OF ok(2)]
  show e: "set_cpu_governor cpu_id f w =
           (Inr (), snd (write_file (''/sys/devices/system/cpu/cpu'' @ to_string cpu_id @
                    ''/cpufreq/scaling_governor'') f
                 (snd (write_file ''/sys/module/qos/parameters/enable'' ''0'' w))))"
    using fam root ok
    by (simp add: set_cpu_governor_def get_soc_family_write_other)
  show "set_cpu_governor_b cpu_id f w =
           (True, snd (write_file (''/sys/devices/system/cpu/cpu'' @ to_string cpu_id @
                    ''/cpufreq/scaling_governor'') f
                 (snd (write_file ''/sys/module/qos/parameters/enable'' ''0'' w))))"
    using fam root ok ne
    by (simp add: set_cpu_governor_b_def gb get_soc_family_write_other split_def)
  show "files (snd (set_cpu_governor cpu_id f w))
           ''/sys/kernel/debug/tegra_cpufreq/M_CLUSTER/cc3/enable'' =
         files w ''/sys/kernel/debug/tegra_cpufreq/M_CLUSTER/cc3/enable''"
    by (simp add: e files_write_other)
  show "files (snd (set_cpu_governor cpu_id f w))
           ''/sys/kernel/debug/tegra_cpufreq/B_CLUSTER/cc3/enable'' =
         files w ''/sys/kernel/debug/tegra_cpufreq/B_CLUSTER/cc3/enable''"
    by (simp add: e files_write_other)
qed

text \<open>
  C10, as the claim states it, fails for the operations that depend on the family without
  an unsupported-family branch.  With a family file that holds \<^verbatim>\<open>tegra186\<close> and a line
  feed, \<^verbatim>\<open>set_cpu_min_freq\<close> succeeds in both editions: it writes the target file,
  prints nothing, and leaves the cluster file at 1, which it sets to 0 when the family
  file holds \<^verbatim>\<open>tegra186\<close> alone.  The boolean \<^verbatim>\<open>set_gpu_freq_range\<close> does not reach its
  own unsupported-family branch either: the getter it calls has taken that branch and
  returned no frequency, so it ends at its value test.
\<close>

theorem newline_family_cpu_setter_succeeds:
  "file_exists ''/sys/devices/soc0/family'' (cpu_world (''tegra186'' @ [CHR 0x0A])) \<and>
   running_as_root (cpu_world (''tegra186'' @ [CHR 0x0A])) \<and>
   get_soc_family (cpu_world (''tegra186'' @ [CHR 0x0A])) = Inr (''tegra186'' @ [CHR 0x0A]) \<and>
   fst (set_cpu_min_freq 0 100 (cpu_world (''tegra186'' @ [CHR 0x0A]))) = Inr () \<and>
   map_option content (files (snd (set_cpu_min_freq 0 100
      (cpu_world (''tegra186'' @ [CHR 0x0A]))))
      ''/sys/devices/system/cpu/cpu0/cpufreq/scaling_min_freq'') = Some ''100'' \<and>
   map_option content (files (snd (set_cpu_min_freq 0 100
      (cpu_world (''tegra186'' @ [CHR 0x0A]))))
      ''/sys/kernel/debug/tegra_cpufreq/M_CLUSTER/cc3/enable'') = Some ''1'' \<and>
   map_option content (files (snd (set_cpu_min_freq 0 100 (cpu_world ''tegra186'')))
      ''/sys/kernel/debug/tegra_cpufreq/M_CLUSTER/cc3/enable'') = Some ''0'' \<and>
   fst (set_cpu_min_freq_b 0 100 (cpu_world (''tegra186'' @ [CHR 0x0A]))) = True \<and>
   cout (snd (set_cpu_min_freq_b 0 100 (cpu_world (''tegra186'' @ [CHR 0x0A])))) = [] \<and>
   fst (set_gpu_freq_range_b 100 900 (cpu_world (''tegra186'' @ [CHR 0x0A]))) = False \<and>
   cout (snd (set_gpu_freq_range_b 100 900 (cpu_world (''tegra186'' @ [CHR 0x0A])))) =
     [UnsupportedPlatform, ValueNotAvailable]"
  using cpu_world_newline by simp

text \<open>
  C10, amended.  When the family file exists, both editions return its whole content as
  the family, a line feed at its end included.  When that content ends with a line feed
  it equals none of the family names.  Every operation that has an unsupported-family
  branch then fails through such a branch: in the exception edition each of them fails
  with the unsupported-platform error; in the boolean edition the getters print that
  error and return their failure value, and the two setters return \<^verbatim>\<open>false\<close> after
  the getter they call first has taken that branch (\<^verbatim>\<open>set_gpu_freq_range\<close> and
  \<^verbatim>\<open>set_emc_freq\<close> with a frequency other than 0 end at their value test,
  \<^verbatim>\<open>set_emc_freq(0)\<close> at its own unsupported-family branch).  The per-CPU setters
  have no such branch: their test for tegra186 is false, so when their other tests pass
  they succeed, writing the QoS file and the target file and leaving the two cluster
  files as they were.
\<close>

theorem family_file_verbatim:
  assumes "file_exists ''/sys/devices/soc0/family'' w"
  shows
    "get_soc_family w = Inr (read_file ''/sys/devices/soc0/family'' w) \<and>
     get_soc_family_b w = read_file ''/sys/devices/soc0/family'' w \<and>
     (read_file ''/sys/devices/soc0/family'' w \<noteq> [] \<and>
      last (read_file ''/sys/devices/soc0/family'' w) = CHR 0x0A \<longrightarrow>
        get_gpu_current_usage w = Inl UnsupportedPlatform \<and>
        (running_as_root w \<longrightarrow>
           get_gpu_available_freqs w = Inl UnsupportedPlatform \<and>
           set_gpu_freq_range min_freq max_freq w = (Inl UnsupportedPlatform, w) \<and>
           get_gpu_cur_freq w = Inl UnsupportedPlatform \<and>
           get_gpu_min_freq w = Inl UnsupportedPlatform \<and>
           get_gpu_max_freq w = Inl UnsupportedPlatform \<and>
           get_emc_available_freqs w = Inl UnsupportedPlatform \<and>
           get_emc_freq w = Inl UnsupportedPlatform \<and>
           set_emc_freq freq w = (Inl UnsupportedPlatform, w) \<and>
           get_gpu_available_freqs_b w = ([], print_error UnsupportedPlatform w) \<and>
           get_emc_available_freq_range_b w =
             (Inr (0, 0), print_error UnsupportedPlatform w) \<and>
           get_emc_freq_b w = (Inr 0, print_error UnsupportedPlatform w) \<and>
           set_gpu_freq_range_b min_freq max_freq w =
             (False, print_error ValueNotAvailable (print_error UnsupportedPlatform w)) \<and>
           set_emc_freq_b freq w =
             (Inr False,
              print_error (if freq = 0 then UnsupportedPlatform else ValueNotAvailable)
                (print_error UnsupportedPlatform w)))) \<and>
     (read_file ''/sys/devices/soc0/family'' w \<noteq> [] \<and>
      last (read_file ''/sys/devices/soc0/family'' w) = CHR 0x0A \<and> running_as_root w \<longrightarrow>
           (get_cpu_available_freqs cpu_id w = Inr avail \<and> f \<in> set avail \<longrightarrow>
               (file_writable (''/sys/devices/system/cpu/cpu'' @ to_string cpu_id @
                               ''/cpufreq/scaling_min_freq'') w \<longrightarrow>
               set_cpu_min_freq cpu_id f w =
                 (Inr (), snd (write_file (''/sys/devices/system/cpu/cpu'' @ to_string cpu_id @
                       ''/cpufreq/scaling_min_freq'') (to_string f)
                    (snd (write_file ''/sys/module/qos/parameters/enable'' ''0'' w)))) \<and>
               set_cpu_min_freq_b cpu_id f w =
                 (True, snd (write_file (''/sys/devices/system/cpu/cpu'' @ to_string cpu_id @
                       ''/cpufreq/scaling_min_freq'') (to_string f)
                    (snd (write_file ''/sys/module/qos/parameters/enable'' ''0'' w)))) \<and>
               files (snd (set_cpu_min_freq cpu_id f w))
                   ''/sys/kernel/debug/tegra_cpufreq/M_CLUSTER/cc3/enable'' =
                 files w ''/sys/kernel/debug/tegra_cpufreq/M_CLUSTER/cc3/enable'' \<and>
               files (snd (set_cpu_min_freq cpu_id f w))
                   ''/sys/kernel/debug/tegra_cpufreq/B_CLUSTER/cc3/enable'' =
                 files w ''/sys/kernel/debug/tegra_cpufreq/B_CLUSTER/cc3/enable'') \<and>
               (file_writable (''/sys/devices/system/cpu/cpu'' @ to_string cpu_id @
                               ''/cpufreq/scaling_max_freq'') w \<longrightarrow>
               set_cpu_max_freq cpu_id f w =
                 (Inr (), snd (write_file (''/sys/devices/system/cpu/cpu'' @ to_string cpu_id @
                       ''/cpufreq/scaling_max_freq'') (to_string f)
                    (snd (write_file ''/sys/module/qos/parameters/enable'' ''0'' w)))) \<and>
               set_cpu_max_freq_b cpu_id f w =
                 (True, snd (write_file (''/sys/devices/system/cpu/cpu'' @ to_string cpu_id @
                       ''/cpufreq/scaling_max_freq'') (to_string f)
                    (snd (write_file ''/sys/module/qos/parameters/enable'' ''0'' w)))) \<and>
               files (snd (set_cpu_max_freq cpu_id f w))
                   ''/sys/kernel/debug/tegra_cpufreq/M_CLUSTER/cc3/enable'' =
                 files w ''/sys/kernel/debug/tegra_cpufreq/M_CLUSTER/cc3/enable'' \<and>
               files (snd (set_cpu_max_freq cpu_id f w))
                   ''/sys/kernel/debug/tegra_cpufreq/B_CLUSTER/cc3/enable'' =
                 files w ''/sys/kernel/debug/tegra_cpufreq/B_CLUSTER/cc3/enable'')) \<and>
           (get_cpu_available_governors cpu_id w = Inr govs \<and> g \<in> set govs \<and>
             file_exists (''/sys/devices/system/cpu/cpu'' @ to_string cpu_id @
                          ''/cpufreq/scaling_governor'') w \<longrightarrow>
               set_cpu_governor cpu_id g w =
                 (Inr (), snd (write_file (''/sys/devices/system/cpu/cpu'' @ to_string cpu_id @
                       ''/cpufreq/scaling_governor'') g
                    (snd (write_file ''/sys/module/qos/parameters/enable'' ''0'' w)))) \<and>
               set_cpu_governor_b cpu_id g w =
                 (True, snd (write_file (''/sys/devices/system/cpu/cpu'' @ to_string cpu_id @
                       ''/cpufreq/scaling_governor'') g
                    (snd (write_file ''/sys/module/qos/parameters/enable'' ''0'' w)))) \<and>
               files (snd (set_cpu_governor cpu_id g w))
                   ''/sys/kernel/debug/tegra_cpufreq/M_CLUSTER/cc3/enable'' =
                 files w ''/sys/kernel/debug/tegra_cpufreq/M_CLUSTER/cc3/enable'' \<and>
               files (snd (set_cpu_governor cpu_id g w))
                   ''/sys/kernel/debug/tegra_cpufreq/B_CLUSTER/cc3/enable'' =
                 files w ''/sys/kernel/debug/tegra_cpufreq/B_CLUSTER/cc3/enable''))"
    (is "_ \<and> _ \<and> _ \<and> (_ \<longrightarrow> ?freqs_and_governor)")
proof -
  note old = family_file_unsupported [OF assms, of min_freq max_freq freq]
  have fam: "get_soc_family w = Inr (read_file ''/sys/devices/soc0/family'' w)"
    "get_soc_family_b w = read_file ''/sys/devices/soc0/family'' w"
    using old by simp_all
  have new: "read_file ''/sys/devices/soc0/family'' w \<noteq> [] \<and>
      last (read_file ''/sys/devices/soc0/family'' w) = CHR 0x0A \<and> running_as_root w \<longrightarrow>
      ?freqs_and_governor"
  proof (intro impI)
    assume h: "read_file ''/sys/devices/soc0/family'' w \<noteq> [] \<and>
      last (read_file ''/sys/devices/soc0/family'' w) = CHR 0x0A \<and> running_as_root w"
    then have nl: "read_file ''/sys/devices/soc0/family'' w \<noteq> []"
      "last (read_file ''/sys/devices/soc0/family'' w) = CHR 0x0A"
      and root: "running_as_root w"
      by simp_all
    have ne: "read_file ''/sys/devices/soc0/family'' w \<noteq> ''tegra186''"
      using newline_not_family [OF nl] by simp
    show "?freqs_and_governor"
      using newline_cpu_min [OF fam ne root, of cpu_id avail f]
        newline_cpu_max [OF fam ne root, of cpu_id avail f]
        newline_cpu_governor [OF fam ne root, of cpu_id govs g]
      by simp
  qed
  show ?thesis
    by (intro conjI) (rule old [THEN conjunct1], rule old [THEN conjunct2, THEN conjunct1],
        rule old [THEN conjunct2, THEN conjunct2], rule new)
qed

lemma cpu_world_newline_reads:
  "read_file ''/sys/devices/soc0/family'' (cpu_world (''tegra186'' @ [CHR 0x0A])) =
     ''tegra186'' @ [CHR 0x0A]"
  "get_cpu_available_freqs 0 (cpu_world (''tegra186'' @ [CHR 0x0A])) = Inr [100, 200]"
  "get_cpu_available_governors 0 (cpu_world (''tegra186'' @ [CHR 0x0A])) =
     Inr [''interactive'', ''performance'']"
  "file_writable (''/sys/devices/system/cpu/cpu'' @ to_string 0 @
                  ''/cpufreq/scaling_min_freq'') (cpu_world (''tegra186'' @ [CHR 0x0A]))"
  "file_writable (''/sys/devices/system/cpu/cpu'' @ to_string 0 @
                  ''/cpufreq/scaling_max_freq'') (cpu_world (''tegra186'' @ [CHR 0x0A]))"
  "file_exists (''/sys/devices/system/cpu/cpu'' @ to_string 0 @
                ''/cpufreq/scaling_governor'') (cpu_world (''tegra186'' @ [CHR 0x0A]))"
  by code_simp+

theorem family_file_verbatim_witness:
  "file_exists ''/sys/devices/soc0/family'' newline_world \<and>
   running_as_root newline_world \<and>
   get_soc_family newline_world = Inr (''tegra186'' @ [CHR 0x0A]) \<and>
   get_soc_family_b newline_world = ''tegra186'' @ [CHR 0x0A] \<and>
   get_gpu_available_freqs newline_world = Inl UnsupportedPlatform \<and>
   set_gpu_freq_range 100 900 newline_world = (Inl UnsupportedPlatform, newline_world) \<and>
   get_emc_freq newline_world = Inl UnsupportedPlatform \<and>
   set_emc_freq 500 newline_world = (Inl UnsupportedPlatform, newline_world) \<and>
   get_gpu_available_freqs_b newline_world =
     ([], print_error UnsupportedPlatform newline_world) \<and>
   file_exists ''/sys/devices/soc0/family'' (cpu_world (''tegra186'' @ [CHR 0x0A])) \<and>
   running_as_root (cpu_world (''tegra186'' @ [CHR 0x0A])) \<and>
   get_cpu_available_freqs 0 (cpu_world (''tegra186'' @ [CHR 0x0A])) = Inr [100, 200] \<and>
   get_cpu_available_governors 0 (cpu_world (''tegra186'' @ [CHR 0x0A])) =
     Inr [''interactive'', ''performance''] \<and>
   fst (set_cpu_min_freq 0 100 (cpu_world (''tegra186'' @ [CHR 0x0A]))) = Inr () \<and>
   fst (set_cpu_max_freq 0 200 (cpu_world (''tegra186'' @ [CHR 0x0A]))) = Inr () \<and>
   fst (set_cpu_governor 0 ''performance'' (cpu_world (''tegra186'' @ [CHR 0x0A]))) = Inr () \<and>
   fst (set_cpu_min_freq_b 0 100 (cpu_world (''tegra186'' @ [CHR 0x0A]))) = True \<and>
   files (snd (set_cpu_min_freq 0 100 (cpu_world (''tegra186'' @ [CHR 0x0A]))))
       ''/sys/kernel/debug/tegra_cpufreq/M_CLUSTER/cc3/enable'' =
     files (cpu_world (''tegra186'' @ [CHR 0x0A]))
       ''/sys/kernel/debug/tegra_cpufreq/M_CLUSTER/cc3/enable''"
proof -
  have a: "get_soc_family newline_world = Inr (''tegra186'' @ [CHR 0x0A]) \<and>
      get_soc_family_b newline_world = ''tegra186'' @ [CHR 0x0A] \<and>
      get_gpu_available_freqs newline_world = Inl UnsupportedPlatform \<and>
      set_gpu_freq_range 100 900 newline_world = (Inl UnsupportedPlatform, newline_world) \<and>
      get_emc_freq newline_world = Inl UnsupportedPlatform \<and>
      set_emc_freq 500 newline_world = (Inl UnsupportedPlatform, newline_world) \<and>
      get_gpu_available_freqs_b newline_world =
        ([], print_error UnsupportedPlatform newline_world)"
    using family_file_verbatim [OF newline_facts(2), where min_freq = 100 and
        max_freq = 900 and freq = 500 and cpu_id = 0 and avail = "[]" and f = 0 and
        govs = "[]" and g = "[]"]
      newline_facts
    by simp
  have b: "fst (set_cpu_min_freq 0 100 (cpu_world (''tegra186'' @ [CHR 0x0A]))) = Inr () \<and>
      fst (set_cpu_governor 0 ''performance'' (cpu_world (''tegra186'' @ [CHR 0x0A]))) =
        Inr () \<and>
      fst (set_cpu_min_freq_b 0 100 (cpu_world (''tegra186'' @ [CHR 0x0A]))) = True \<and>
      files (snd (set_cpu_min_freq 0 100 (cpu_world (''tegra186'' @ [CHR 0x0A]))))
          ''/sys/kernel/debug/tegra_cpufreq/M_CLUSTER/cc3/enable'' =
        files (cpu_world (''tegra186'' @ [CHR 0x0A]))
          ''/sys/kernel/debug/tegra_cpufreq/M_CLUSTER/cc3/enable''"
    using family_file_verbatim [OF cpu_world_newline(1), where min_freq = 100 and
        max_freq = 900 and freq = 500 and cpu_id = 0 and avail = "[100, 200]" and
        f = 100 and govs = "[''interactive'', ''performance'']" and g = "''performance''"]
      cpu_world_newline(2) cpu_world_newline_reads
    by (simp add: files_write_other)
  have c: "fst (set_cpu_max_freq 0 200 (cpu_world (''tegra186'' @ [CHR 0x0A]))) = Inr ()"
    using family_file_verbatim [OF cpu_world_newline(1), where min_freq = 100 and
        max_freq = 900 and freq = 500 and cpu_id = 0 and avail = "[100, 200]" and
        f = 200 and govs = "[]" and g = "[]"]
      cpu_world_newline(2) cpu_world_newline_reads
    by simp
  show ?thesis
    using a b c newline_facts(1,2) cpu_world_newline(1,2) cpu_world_newline_reads(2,3)
    by simp
qed

end
